theory Spec2Isabelle
  imports Complex_Main
begin

section \<open>Validation outcomes\<close>

text \<open>
  The three programs declare their records as pydantic models. Constructing a model from
  keyword arguments either returns the instance or raises \<^verbatim>\<open>ValidationError\<close>, whose
  \<^verbatim>\<open>errors()\<close> is an ordered list of entries, each with a location (\<^verbatim>\<open>loc\<close>), an
  error type (\<^verbatim>\<open>type\<close>) and, for a \<^verbatim>\<open>ValueError\<close> raised by a model validator,
  the text that was raised. The raise is a value here: \<open>Inl\<close> of the list.
\<close>

datatype loc_item = Key string | Index nat

datatype error_type =
    Missing
  | TypeError
  | EnumError
  | ModelType
  | StringTooShort
  | StringTooLong
  | GreaterThanEqual
  | LessThanEqual
  | TooShort
  | TooLong
  | ValueError string

datatype violation = Violation (loc: "loc_item list") (err: error_type)

type_synonym 'a result = "violation list + 'a"

text \<open>
  The kinds of the error taxonomy: a failed \<^verbatim>\<open>ge\<close>/\<^verbatim>\<open>le\<close> bound is a range error, a
  \<^verbatim>\<open>ValueError\<close> raised by a model validator is a business-rule error.
\<close>

fun is_range_error :: "error_type \<Rightarrow> bool" where
  "is_range_error GreaterThanEqual = True"
| "is_range_error LessThanEqual = True"
| "is_range_error _ = False"

fun is_business_rule_error :: "error_type \<Rightarrow> bool" where
  "is_business_rule_error (ValueError m) = True"
| "is_business_rule_error _ = False"

text \<open>
  One keyword argument as the constructor sees it: not passed, passed with a value that
  cannot be coerced to the annotated type, or passed with a value that coerces to \<open>v\<close>.
\<close>

datatype 'a field_input = Absent | Uncoercible | Given 'a

text \<open>
  Values: an \<^verbatim>\<open>int\<close> is an \<open>int\<close> (Python's integers are unbounded); a \<^verbatim>\<open>float\<close> is
  the real number it denotes, which is what the comparisons of the code read (infinities
  and NaN are left out); a \<^verbatim>\<open>str\<close> is the list of its characters, whose length is the
  length that \<^verbatim>\<open>min_length\<close> and \<^verbatim>\<open>max_length\<close> bound. A \<^verbatim>\<open>datetime\<close> is its
  year, month, day, hour, minute, second and microsecond.
\<close>

datatype datetime = Datetime int int int int int int int

section \<open>Constraint primitives\<close>

text \<open>\<^verbatim>\<open>Field(min_length=lo, max_length=hi)\<close> on a \<^verbatim>\<open>str\<close>.\<close>

definition str_length :: "nat option \<Rightarrow> nat option \<Rightarrow> string \<Rightarrow> error_type option" where
  "str_length lo hi s =
     (if (case lo of None \<Rightarrow> False | Some a \<Rightarrow> length s < a) then Some StringTooShort
      else if (case hi of None \<Rightarrow> False | Some b \<Rightarrow> b < length s) then Some StringTooLong
      else None)"

text \<open>\<^verbatim>\<open>Field(ge=lo, le=hi)\<close> on an \<^verbatim>\<open>int\<close> or a \<^verbatim>\<open>float\<close>.\<close>

definition ge_le :: "'a::linorder \<Rightarrow> 'a \<Rightarrow> 'a \<Rightarrow> error_type option" where
  "ge_le lo hi x =
     (if x < lo then Some GreaterThanEqual
      else if hi < x then Some LessThanEqual
      else None)"

text \<open>A field with no \<^verbatim>\<open>Field(...)\<close> constraint.\<close>

definition unconstrained :: "'a \<Rightarrow> error_type option" where
  "unconstrained x = None"

text \<open>\<^verbatim>\<open>Optional[T]\<close>: \<^verbatim>\<open>None\<close> is accepted, any other value is checked as a \<^verbatim>\<open>T\<close>.\<close>

definition nullable :: "('a \<Rightarrow> error_type option) \<Rightarrow> 'a option \<Rightarrow> error_type option" where
  "nullable chk v = (case v of None \<Rightarrow> None | Some x \<Rightarrow> chk x)"

section \<open>Field validation\<close>

text \<open>
  One declared field: \<open>chk\<close> is its constraint, \<open>terr\<close> the error type of a value of the
  wrong type, \<open>dflt\<close> its default (\<open>None\<close> for a required field). A default is used as it
  is, without validation.
\<close>

fun field :: "('a \<Rightarrow> error_type option) \<Rightarrow> error_type \<Rightarrow> 'a option \<Rightarrow> string
    \<Rightarrow> 'a field_input \<Rightarrow> 'a result" where
  "field chk terr dflt f Absent =
     (case dflt of None \<Rightarrow> Inl [Violation [Key f] Missing] | Some d \<Rightarrow> Inr d)"
| "field chk terr dflt f Uncoercible = Inl [Violation [Key f] terr]"
| "field chk terr dflt f (Given v) =
     (case chk v of Some e \<Rightarrow> Inl [Violation [Key f] e] | None \<Rightarrow> Inr v)"

text \<open>
  The fields of a model are validated one after the other, in declaration order, and the
  errors of all of them are collected: \<open>ap\<close> adds one more field to the fields so far.
\<close>

fun ap :: "('a \<Rightarrow> 'b) result \<Rightarrow> 'a result \<Rightarrow> 'b result" where
  "ap (Inr g) (Inr v) = Inr (g v)"
| "ap (Inr g) (Inl e) = Inl e"
| "ap (Inl d) (Inr v) = Inl d"
| "ap (Inl d) (Inl e) = Inl (d @ e)"

fun errors :: "'a result \<Rightarrow> violation list" where
  "errors (Inl e) = e"
| "errors (Inr v) = []"

text \<open>
  An outcome is proper when it is an instance or a list of violations that is not empty:
  an error that is raised reports at least one violation.
\<close>

definition proper :: "'a result \<Rightarrow> bool" where
  "proper r = (case r of Inl e \<Rightarrow> e \<noteq> [] | Inr v \<Rightarrow> True)"

section \<open>ex0: the space station\<close>

record SpaceStation =
  station_id :: string
  station_name :: string
  crew_size :: int
  power_level :: real
  oxygen_level :: real
  last_maintenance :: datetime
  is_operational :: bool
  station_notes :: "string option"

record SpaceStation_kwargs =
  kw_station_id :: "string field_input"
  kw_station_name :: "string field_input"
  kw_crew_size :: "int field_input"
  kw_power_level :: "real field_input"
  kw_oxygen_level :: "real field_input"
  kw_last_maintenance :: "datetime field_input"
  kw_is_operational :: "bool field_input"
  kw_notes :: "string option field_input"

definition SpaceStation_of :: "string \<Rightarrow> string \<Rightarrow> int \<Rightarrow> real \<Rightarrow> real \<Rightarrow> datetime \<Rightarrow> bool
    \<Rightarrow> string option \<Rightarrow> SpaceStation" where
  "SpaceStation_of a b c d e f g h =
     \<lparr>station_id = a, station_name = b, crew_size = c, power_level = d, oxygen_level = e,
      last_maintenance = f, is_operational = g, station_notes = h\<rparr>"

definition validate_station :: "SpaceStation_kwargs \<Rightarrow> SpaceStation result" where
  "validate_station kw =
     ap (ap (ap (ap (ap (ap (ap (ap (Inr SpaceStation_of)
       (field (str_length (Some 3) (Some 10)) TypeError None ''station_id'' (kw_station_id kw)))
       (field (str_length (Some 1) (Some 50)) TypeError None ''name'' (kw_station_name kw)))
       (field (ge_le 1 20) TypeError None ''crew_size'' (kw_crew_size kw)))
       (field (ge_le 0 100) TypeError None ''power_level'' (kw_power_level kw)))
       (field (ge_le 0 100) TypeError None ''oxygen_level'' (kw_oxygen_level kw)))
       (field unconstrained TypeError None ''last_maintenance'' (kw_last_maintenance kw)))
       (field unconstrained TypeError (Some True) ''is_operational'' (kw_is_operational kw)))
       (field (nullable (str_length None (Some 200))) TypeError (Some None) ''notes'' (kw_notes kw))"

section \<open>ex1: the alien contact report\<close>

datatype ContactType = radio | visual | physical | telepathic

record AlienContact =
  contact_id :: string
  timestamp :: datetime
  location :: string
  contact_type :: ContactType
  signal_strength :: real
  duration_minutes :: int
  witness_count :: int
  message_received :: "string option"
  is_verified :: bool

record AlienContact_kwargs =
  kw_contact_id :: "string field_input"
  kw_timestamp :: "datetime field_input"
  kw_location :: "string field_input"
  kw_contact_type :: "ContactType field_input"
  kw_signal_strength :: "real field_input"
  kw_duration_minutes :: "int field_input"
  kw_witness_count :: "int field_input"
  kw_message_received :: "string option field_input"
  kw_is_verified :: "bool field_input"

definition AlienContact_of :: "string \<Rightarrow> datetime \<Rightarrow> string \<Rightarrow> ContactType \<Rightarrow> real \<Rightarrow> int \<Rightarrow> int
    \<Rightarrow> string option \<Rightarrow> bool \<Rightarrow> AlienContact" where
  "AlienContact_of a b c d e f g h i =
     \<lparr>contact_id = a, timestamp = b, location = c, contact_type = d, signal_strength = e,
      duration_minutes = f, witness_count = g, message_received = h, is_verified = i\<rparr>"

definition contact_fields :: "AlienContact_kwargs \<Rightarrow> AlienContact result" where
  "contact_fields kw =
     ap (ap (ap (ap (ap (ap (ap (ap (ap (Inr AlienContact_of)
       (field (str_length (Some 5) (Some 15)) TypeError None ''contact_id'' (kw_contact_id kw)))
       (field unconstrained TypeError None ''timestamp'' (kw_timestamp kw)))
       (field (str_length (Some 3) (Some 100)) TypeError None ''location'' (kw_location kw)))
       (field unconstrained EnumError None ''contact_type'' (kw_contact_type kw)))
       (field (ge_le 0 10) TypeError None ''signal_strength'' (kw_signal_strength kw)))
       (field (ge_le 1 1440) TypeError None ''duration_minutes'' (kw_duration_minutes kw)))
       (field (ge_le 1 100) TypeError None ''witness_count'' (kw_witness_count kw)))
       (field (nullable (str_length None (Some 500))) TypeError (Some None) ''message_received''
          (kw_message_received kw)))
       (field unconstrained TypeError (Some False) ''is_verified'' (kw_is_verified kw))"

text \<open>\<^verbatim>\<open>s.startswith(p)\<close>.\<close>

definition startswith :: "string \<Rightarrow> string \<Rightarrow> bool" where
  "startswith s p = (take (length p) s = p)"

text \<open>The truth value of an \<^verbatim>\<open>Optional[str]\<close>: \<^verbatim>\<open>None\<close> and the empty string are false.\<close>

fun truthy :: "string option \<Rightarrow> bool" where
  "truthy None = False"
| "truthy (Some s) = (s \<noteq> [])"

text \<open>The apostrophe, for the messages that quote a prefix.\<close>

definition apostrophe :: char where
  "apostrophe = CHR 0x27"

text \<open>The model validator of \<^verbatim>\<open>AlienContact\<close>; \<open>Inl m\<close> is \<^verbatim>\<open>raise ValueError(m)\<close>.\<close>

definition validate_business_rules :: "AlienContact \<Rightarrow> string + AlienContact" where
  "validate_business_rules self =
     (if \<not> startswith (contact_id self) ''AC'' then
        Inl (''Contact ID must start with '' @ [apostrophe] @ ''AC'' @ [apostrophe]
             @ '' (Alien Contact)'')
      else if contact_type self = physical \<and> \<not> is_verified self then
        Inl ''Physical contact reports must be verified''
      else if contact_type self = telepathic \<and> witness_count self < 3 then
        Inl ''Telepathic contact requires at least 3 witnesses''
      else if signal_strength self > 7 \<and> \<not> truthy (message_received self) then
        Inl ''Strong signals (> 7.0) should include a received message''
      else Inr self)"

text \<open>
  A validator declared with \<^verbatim>\<open>@model_validator(mode="after")\<close> runs on the instance once
  every field has passed, and not at all otherwise. The \<^verbatim>\<open>ValueError\<close> it raises becomes
  the only entry of the error list, with the empty location.
\<close>

definition model_validator :: "('m \<Rightarrow> string + 'm) \<Rightarrow> 'm result \<Rightarrow> 'm result" where
  "model_validator v r =
     (case r of
        Inl e \<Rightarrow> Inl e
      | Inr m \<Rightarrow> (case v m of Inl t \<Rightarrow> Inl [Violation [] (ValueError t)] | Inr m' \<Rightarrow> Inr m'))"

definition validate_contact :: "AlienContact_kwargs \<Rightarrow> AlienContact result" where
  "validate_contact kw = model_validator validate_business_rules (contact_fields kw)"

section \<open>ex2: the mission and its crew\<close>

datatype Rank = cadet | officer | lieutenant | captain | commander

record CrewMember =
  member_id :: string
  member_name :: string
  rank :: Rank
  age :: int
  specialization :: string
  years_experience :: int
  is_active :: bool

record CrewMember_kwargs =
  kw_member_id :: "string field_input"
  kw_member_name :: "string field_input"
  kw_rank :: "Rank field_input"
  kw_age :: "int field_input"
  kw_specialization :: "string field_input"
  kw_years_experience :: "int field_input"
  kw_is_active :: "bool field_input"

definition CrewMember_of :: "string \<Rightarrow> string \<Rightarrow> Rank \<Rightarrow> int \<Rightarrow> string \<Rightarrow> int \<Rightarrow> bool
    \<Rightarrow> CrewMember" where
  "CrewMember_of a b c d e f g =
     \<lparr>member_id = a, member_name = b, rank = c, age = d, specialization = e,
      years_experience = f, is_active = g\<rparr>"

definition validate_crew_member :: "CrewMember_kwargs \<Rightarrow> CrewMember result" where
  "validate_crew_member kw =
     ap (ap (ap (ap (ap (ap (ap (Inr CrewMember_of)
       (field (str_length (Some 3) (Some 10)) TypeError None ''member_id'' (kw_member_id kw)))
       (field (str_length (Some 2) (Some 50)) TypeError None ''name'' (kw_member_name kw)))
       (field unconstrained EnumError None ''rank'' (kw_rank kw)))
       (field (ge_le 18 80) TypeError None ''age'' (kw_age kw)))
       (field (str_length (Some 3) (Some 30)) TypeError None ''specialization''
          (kw_specialization kw)))
       (field (ge_le 0 50) TypeError None ''years_experience'' (kw_years_experience kw)))
       (field unconstrained TypeError (Some True) ''is_active'' (kw_is_active kw))"

text \<open>
  An element of the \<^verbatim>\<open>crew\<close> list: a \<^verbatim>\<open>CrewMember\<close> instance, as in the lists
  \<^verbatim>\<open>crew_with_leader\<close> and \<^verbatim>\<open>crew_no_leader\<close> of the source; the fields of a crew
  member in a dict; or something that is neither. An instance is taken as it is, with the
  values its fields hold at that moment (\<^verbatim>\<open>CrewMember\<close> does not ask for instances to be
  validated again); a dict is validated as the keyword arguments of \<^verbatim>\<open>CrewMember\<close>.
\<close>

datatype crew_item = NotAModel | Fields CrewMember_kwargs | Instance CrewMember

fun validate_item :: "crew_item \<Rightarrow> CrewMember result" where
  "validate_item NotAModel = Inl [Violation [] ModelType]"
| "validate_item (Fields kw) = validate_crew_member kw"
| "validate_item (Instance member) = Inr member"

text \<open>The errors of a nested value carry the location of the value in front of their own.\<close>

definition under :: "loc_item \<Rightarrow> 'a result \<Rightarrow> 'a result" where
  "under k r =
     (case r of Inl e \<Rightarrow> Inl (map (\<lambda>v. Violation (k # loc v) (err v)) e) | Inr x \<Rightarrow> Inr x)"

fun validate_items :: "('i \<Rightarrow> 'a result) \<Rightarrow> nat \<Rightarrow> 'i list \<Rightarrow> 'a list result" where
  "validate_items item i [] = Inr []"
| "validate_items item i (x # xs) =
     ap (ap (Inr Cons) (under (Index i) (item x))) (validate_items item (Suc i) xs)"

text \<open>
  A \<^verbatim>\<open>List[...]\<close> field with \<^verbatim>\<open>Field(min_length=lo, max_length=hi)\<close>. The elements are
  validated in order and their errors collected; passing the maximum length while doing so
  ends the validation of the list with the single error \<^verbatim>\<open>too_long\<close>, and the minimum
  length is checked on the validated list.
\<close>

fun list_field :: "nat \<Rightarrow> nat \<Rightarrow> ('i \<Rightarrow> 'a result) \<Rightarrow> string \<Rightarrow> 'i list field_input
    \<Rightarrow> 'a list result" where
  "list_field lo hi item f Absent = Inl [Violation [Key f] Missing]"
| "list_field lo hi item f Uncoercible = Inl [Violation [Key f] TypeError]"
| "list_field lo hi item f (Given xs) =
     (if hi < length xs then Inl [Violation [Key f] TooLong]
      else (case under (Key f) (validate_items item 0 xs) of
              Inl e \<Rightarrow> Inl e
            | Inr ys \<Rightarrow> if length ys < lo then Inl [Violation [Key f] TooShort] else Inr ys))"

record SpaceMission =
  mission_id :: string
  mission_name :: string
  destination :: string
  launch_date :: datetime
  duration_days :: int
  crew :: "CrewMember list"
  mission_status :: string
  budget_millions :: real

record SpaceMission_kwargs =
  kw_mission_id :: "string field_input"
  kw_mission_name :: "string field_input"
  kw_destination :: "string field_input"
  kw_launch_date :: "datetime field_input"
  kw_duration_days :: "int field_input"
  kw_crew :: "crew_item list field_input"
  kw_mission_status :: "string field_input"
  kw_budget_millions :: "real field_input"

definition SpaceMission_of :: "string \<Rightarrow> string \<Rightarrow> string \<Rightarrow> datetime \<Rightarrow> int \<Rightarrow> CrewMember list
    \<Rightarrow> string \<Rightarrow> real \<Rightarrow> SpaceMission" where
  "SpaceMission_of a b c d e f g h =
     \<lparr>mission_id = a, mission_name = b, destination = c, launch_date = d, duration_days = e,
      crew = f, mission_status = g, budget_millions = h\<rparr>"

definition mission_fields :: "SpaceMission_kwargs \<Rightarrow> SpaceMission result" where
  "mission_fields kw =
     ap (ap (ap (ap (ap (ap (ap (ap (Inr SpaceMission_of)
       (field (str_length (Some 5) (Some 15)) TypeError None ''mission_id'' (kw_mission_id kw)))
       (field (str_length (Some 3) (Some 100)) TypeError None ''mission_name''
          (kw_mission_name kw)))
       (field (str_length (Some 3) (Some 50)) TypeError None ''destination'' (kw_destination kw)))
       (field unconstrained TypeError None ''launch_date'' (kw_launch_date kw)))
       (field (ge_le 1 3650) TypeError None ''duration_days'' (kw_duration_days kw)))
       (list_field 1 12 validate_item ''crew'' (kw_crew kw)))
       (field unconstrained TypeError (Some ''planned'') ''mission_status''
          (kw_mission_status kw)))
       (field (ge_le 1 10000) TypeError None ''budget_millions'' (kw_budget_millions kw))"

text \<open>The model validator of \<^verbatim>\<open>SpaceMission\<close>.\<close>

definition validate_mission_id :: "SpaceMission \<Rightarrow> string + SpaceMission" where
  "validate_mission_id self =
     (if \<not> startswith (mission_id self) ''M'' then
        Inl (''Mission ID must start with '' @ [apostrophe] @ ''M'' @ [apostrophe])
      else
        let has_leader =
              list_ex (\<lambda>member. rank member = captain \<or> rank member = commander) (crew self)
        in
          if \<not> has_leader then Inl ''Mission must have at least one Captain or Commander''
          else
            let experienced_count =
                  length (filter (\<lambda>member. years_experience member \<ge> 5) (crew self))
            in
              if duration_days self > 365
                  \<and> real experienced_count < real (length (crew self)) / 2
              then Inl (''Long missions require at '' @ ''least 50% experienced crew (5+ years)'')
              else if list_ex (\<lambda>member. \<not> is_active member) (crew self) then
                Inl ''All crew members must be active''
              else Inr self)"

definition validate_mission :: "SpaceMission_kwargs \<Rightarrow> SpaceMission result" where
  "validate_mission kw = model_validator validate_mission_id (mission_fields kw)"

section \<open>Assignment to a field of an instance\<close>

text \<open>
  \<^verbatim>\<open>instance.field = value\<close> on a pydantic model is governed by the class's
  \<^verbatim>\<open>model_config\<close>: with \<^verbatim>\<open>frozen=True\<close> it raises, otherwise it stores the value. None
  of \<^verbatim>\<open>SpaceStation\<close>, \<^verbatim>\<open>AlienContact\<close>, \<^verbatim>\<open>CrewMember\<close> and \<^verbatim>\<open>SpaceMission\<close> sets
  \<^verbatim>\<open>model_config\<close> or freezes a field, so each has the default configuration, in which
  the assigned value is not validated either.
\<close>

record model_config =
  frozen :: bool
  validate_assignment :: bool

definition default_config :: model_config where
  "default_config = \<lparr>frozen = False, validate_assignment = False\<rparr>"

definition SpaceStation_config :: model_config where
  "SpaceStation_config = default_config"

definition AlienContact_config :: model_config where
  "AlienContact_config = default_config"

definition SpaceMission_config :: model_config where
  "SpaceMission_config = default_config"

datatype assign_error = FrozenInstance | AssignmentRejected

text \<open>
  \<open>setattr cfg valid assign self\<close>: the assignment \<open>assign\<close> (a field update) on the
  instance \<open>self\<close> of a class configured by \<open>cfg\<close>, where \<open>valid\<close> tells whether the
  updated instance would validate.
\<close>

definition setattr :: "model_config \<Rightarrow> ('m \<Rightarrow> bool) \<Rightarrow> ('m \<Rightarrow> 'm) \<Rightarrow> 'm \<Rightarrow> assign_error + 'm" where
  "setattr cfg valid assign self =
     (if frozen cfg then Inl FrozenInstance
      else if validate_assignment cfg \<and> \<not> valid (assign self) then Inl AssignmentRejected
      else Inr (assign self))"

text \<open>
  The assignments \<^verbatim>\<open>station.crew_size = v\<close>, \<^verbatim>\<open>contact.witness_count = v\<close>,
  \<^verbatim>\<open>mission.duration_days = v\<close> and \<^verbatim>\<open>member.age = v\<close>.
\<close>

definition assign_crew_size :: "int \<Rightarrow> SpaceStation \<Rightarrow> SpaceStation" where
  "assign_crew_size v self = self\<lparr>crew_size := v\<rparr>"

definition assign_witness_count :: "int \<Rightarrow> AlienContact \<Rightarrow> AlienContact" where
  "assign_witness_count v self = self\<lparr>witness_count := v\<rparr>"

definition assign_duration_days :: "int \<Rightarrow> SpaceMission \<Rightarrow> SpaceMission" where
  "assign_duration_days v self = self\<lparr>duration_days := v\<rparr>"

definition assign_age :: "int \<Rightarrow> CrewMember \<Rightarrow> CrewMember" where
  "assign_age v self = self\<lparr>age := v\<rparr>"

section \<open>The vocabulary of the specification\<close>

subsection \<open>Constraints and offending fields\<close>

text \<open>The constraint primitives, as the specification's table gives them.\<close>

definition numeric_range :: "'a::linorder \<Rightarrow> 'a \<Rightarrow> 'a \<Rightarrow> bool" where
  "numeric_range lo hi x = (lo \<le> x \<and> x \<le> hi)"

definition string_length :: "nat \<Rightarrow> nat \<Rightarrow> string \<Rightarrow> bool" where
  "string_length lo hi s = (lo \<le> length s \<and> length s \<le> hi)"

definition collection_size :: "nat \<Rightarrow> nat \<Rightarrow> 'a list \<Rightarrow> bool" where
  "collection_size lo hi xs = (lo \<le> length xs \<and> length xs \<le> hi)"

definition any_value :: "'a \<Rightarrow> bool" where
  "any_value x = True"

definition none_or :: "('a \<Rightarrow> bool) \<Rightarrow> 'a option \<Rightarrow> bool" where
  "none_or sat v = (case v of None \<Rightarrow> True | Some x \<Rightarrow> sat x)"

text \<open>
  A field offends when it is required and absent, when its value is not of its type, or
  when its value does not satisfy its constraint.
\<close>

fun offending :: "('a \<Rightarrow> bool) \<Rightarrow> bool \<Rightarrow> 'a field_input \<Rightarrow> bool" where
  "offending sat optional Absent = (\<not> optional)"
| "offending sat optional Uncoercible = True"
| "offending sat optional (Given v) = (\<not> sat v)"

definition path_if :: "string \<Rightarrow> bool \<Rightarrow> loc_item list list" where
  "path_if f b = (if b then [[Key f]] else [])"

text \<open>The paths of the offending fields of each record kind, in declaration order.\<close>

definition station_offending :: "SpaceStation_kwargs \<Rightarrow> loc_item list list" where
  "station_offending kw =
     path_if ''station_id'' (offending (string_length 3 10) False (kw_station_id kw))
     @ path_if ''name'' (offending (string_length 1 50) False (kw_station_name kw))
     @ path_if ''crew_size'' (offending (numeric_range 1 20) False (kw_crew_size kw))
     @ path_if ''power_level'' (offending (numeric_range 0 100) False (kw_power_level kw))
     @ path_if ''oxygen_level'' (offending (numeric_range 0 100) False (kw_oxygen_level kw))
     @ path_if ''last_maintenance'' (offending any_value False (kw_last_maintenance kw))
     @ path_if ''is_operational'' (offending any_value True (kw_is_operational kw))
     @ path_if ''notes'' (offending (none_or (string_length 0 200)) True (kw_notes kw))"

definition contact_offending :: "AlienContact_kwargs \<Rightarrow> loc_item list list" where
  "contact_offending kw =
     path_if ''contact_id'' (offending (string_length 5 15) False (kw_contact_id kw))
     @ path_if ''timestamp'' (offending any_value False (kw_timestamp kw))
     @ path_if ''location'' (offending (string_length 3 100) False (kw_location kw))
     @ path_if ''contact_type'' (offending any_value False (kw_contact_type kw))
     @ path_if ''signal_strength'' (offending (numeric_range 0 10) False (kw_signal_strength kw))
     @ path_if ''duration_minutes'' (offending (numeric_range 1 1440) False (kw_duration_minutes kw))
     @ path_if ''witness_count'' (offending (numeric_range 1 100) False (kw_witness_count kw))
     @ path_if ''message_received''
         (offending (none_or (string_length 0 500)) True (kw_message_received kw))
     @ path_if ''is_verified'' (offending any_value True (kw_is_verified kw))"

definition crew_member_offending :: "CrewMember_kwargs \<Rightarrow> loc_item list list" where
  "crew_member_offending kw =
     path_if ''member_id'' (offending (string_length 3 10) False (kw_member_id kw))
     @ path_if ''name'' (offending (string_length 2 50) False (kw_member_name kw))
     @ path_if ''rank'' (offending any_value False (kw_rank kw))
     @ path_if ''age'' (offending (numeric_range 18 80) False (kw_age kw))
     @ path_if ''specialization'' (offending (string_length 3 30) False (kw_specialization kw))
     @ path_if ''years_experience'' (offending (numeric_range 0 50) False (kw_years_experience kw))
     @ path_if ''is_active'' (offending any_value True (kw_is_active kw))"

text \<open>The fields of a crew member instance whose values do not satisfy their constraints.\<close>

definition instance_offending :: "CrewMember \<Rightarrow> loc_item list list" where
  "instance_offending member =
     path_if ''member_id'' (\<not> string_length 3 10 (member_id member))
     @ path_if ''name'' (\<not> string_length 2 50 (member_name member))
     @ path_if ''age'' (\<not> numeric_range 18 80 (age member))
     @ path_if ''specialization'' (\<not> string_length 3 30 (specialization member))
     @ path_if ''years_experience'' (\<not> numeric_range 0 50 (years_experience member))"

text \<open>
  The offending paths of an element of the crew. The specification validates every nested
  element (\<open>revalidate\<close> is true); when \<open>revalidate\<close> is false an element that is already an
  instance is taken as it is, and no field of it counts.
\<close>

fun item_offending :: "bool \<Rightarrow> crew_item \<Rightarrow> loc_item list list" where
  "item_offending revalidate NotAModel = [[]]"
| "item_offending revalidate (Fields kw) = crew_member_offending kw"
| "item_offending revalidate (Instance member) =
     (if revalidate then instance_offending member else [])"

text \<open>
  The offending paths of the elements \<open>xs\<close> of a collection, the first of them at index
  \<open>i\<close>.
\<close>

fun items_offending :: "bool \<Rightarrow> nat \<Rightarrow> crew_item list \<Rightarrow> loc_item list list" where
  "items_offending revalidate i [] = []"
| "items_offending revalidate i (x # xs) =
     map (\<lambda>p. Index i # p) (item_offending revalidate x)
     @ items_offending revalidate (Suc i) xs"

fun crew_offending :: "bool \<Rightarrow> crew_item list field_input \<Rightarrow> loc_item list list" where
  "crew_offending revalidate Absent = [[Key ''crew'']]"
| "crew_offending revalidate Uncoercible = [[Key ''crew'']]"
| "crew_offending revalidate (Given xs) =
     path_if ''crew'' (\<not> collection_size 1 12 xs)
     @ map (\<lambda>p. Key ''crew'' # p) (items_offending revalidate 0 xs)"

text \<open>
  The offending paths of a mission, in declaration order: those of the fields declared
  before \<^verbatim>\<open>crew\<close>, the paths \<open>crew_paths\<close> at \<^verbatim>\<open>crew\<close> and inside it, and those of
  the fields declared after it.
\<close>

definition mission_paths :: "loc_item list list \<Rightarrow> SpaceMission_kwargs \<Rightarrow> loc_item list list" where
  "mission_paths crew_paths kw =
     path_if ''mission_id'' (offending (string_length 5 15) False (kw_mission_id kw))
     @ path_if ''mission_name'' (offending (string_length 3 100) False (kw_mission_name kw))
     @ path_if ''destination'' (offending (string_length 3 50) False (kw_destination kw))
     @ path_if ''launch_date'' (offending any_value False (kw_launch_date kw))
     @ path_if ''duration_days'' (offending (numeric_range 1 3650) False (kw_duration_days kw))
     @ crew_paths
     @ path_if ''mission_status'' (offending any_value True (kw_mission_status kw))
     @ path_if ''budget_millions'' (offending (numeric_range 1 10000) False (kw_budget_millions kw))"

definition mission_offending :: "bool \<Rightarrow> SpaceMission_kwargs \<Rightarrow> loc_item list list" where
  "mission_offending revalidate kw = mission_paths (crew_offending revalidate (kw_crew kw)) kw"

text \<open>A violation located at the field \<open>f\<close> or inside its value.\<close>

definition located_under :: "string \<Rightarrow> violation \<Rightarrow> bool" where
  "located_under f v = (case loc v of [] \<Rightarrow> False | k # p \<Rightarrow> k = Key f)"

text \<open>
  The field constraints of each record kind, on the fields that an instance holds. Those
  of a mission are the constraints on its own fields, the size of the crew among them.
\<close>

definition station_valid :: "SpaceStation \<Rightarrow> bool" where
  "station_valid st =
     (string_length 3 10 (station_id st) \<and> string_length 1 50 (station_name st)
      \<and> numeric_range 1 20 (crew_size st) \<and> numeric_range 0 100 (power_level st)
      \<and> numeric_range 0 100 (oxygen_level st)
      \<and> none_or (string_length 0 200) (station_notes st))"

definition contact_valid :: "AlienContact \<Rightarrow> bool" where
  "contact_valid c =
     (string_length 5 15 (contact_id c) \<and> string_length 3 100 (location c)
      \<and> numeric_range 0 10 (signal_strength c) \<and> numeric_range 1 1440 (duration_minutes c)
      \<and> numeric_range 1 100 (witness_count c)
      \<and> none_or (string_length 0 500) (message_received c))"

definition mission_valid :: "SpaceMission \<Rightarrow> bool" where
  "mission_valid m =
     (string_length 5 15 (mission_id m) \<and> string_length 3 100 (mission_name m)
      \<and> string_length 3 50 (destination m) \<and> numeric_range 1 3650 (duration_days m)
      \<and> collection_size 1 12 (crew m) \<and> numeric_range 1 10000 (budget_millions m))"

subsection \<open>Business rules\<close>

text \<open>
  A business rule: the condition under which it is violated, and the message of its
  violation. The rules of a record kind are listed in declaration order.
\<close>

type_synonym 'm rule = "('m \<Rightarrow> bool) \<times> string"

definition contact_rules :: "AlienContact rule list" where
  "contact_rules =
     [(\<lambda>c. \<not> startswith (contact_id c) ''AC'',
       ''Contact ID must start with '' @ [apostrophe] @ ''AC'' @ [apostrophe]
         @ '' (Alien Contact)''),
      (\<lambda>c. contact_type c = physical \<and> \<not> is_verified c,
       ''Physical contact reports must be verified''),
      (\<lambda>c. contact_type c = telepathic \<and> witness_count c < 3,
       ''Telepathic contact requires at least 3 witnesses''),
      (\<lambda>c. 7 < signal_strength c \<and> \<not> truthy (message_received c),
       ''Strong signals (> 7.0) should include a received message'')]"

definition leader_present :: "SpaceMission \<Rightarrow> bool" where
  "leader_present m = list_ex (\<lambda>x. rank x = captain \<or> rank x = commander) (crew m)"

definition experienced :: "SpaceMission \<Rightarrow> nat" where
  "experienced m = length (filter (\<lambda>x. 5 \<le> years_experience x) (crew m))"

definition all_active :: "SpaceMission \<Rightarrow> bool" where
  "all_active m = list_all is_active (crew m)"

definition mission_rules :: "SpaceMission rule list" where
  "mission_rules =
     [(\<lambda>m. \<not> startswith (mission_id m) ''M'',
       ''Mission ID must start with '' @ [apostrophe] @ ''M'' @ [apostrophe]),
      (\<lambda>m. \<not> leader_present m,
       ''Mission must have at least one Captain or Commander''),
      (\<lambda>m. 365 < duration_days m \<and> real (experienced m) < real (length (crew m)) / 2,
       ''Long missions require at least 50% experienced crew (5+ years)''),
      (\<lambda>m. \<not> all_active m,
       ''All crew members must be active'')]"

text \<open>The messages of the rules that a record violates, in declaration order.\<close>

definition violated :: "'m rule list \<Rightarrow> 'm \<Rightarrow> string list" where
  "violated rules m = map snd (filter (\<lambda>r. fst r m) rules)"

section \<open>The inputs of the three demonstrations\<close>

definition station_ok :: SpaceStation_kwargs where
  "station_ok =
     \<lparr>kw_station_id = Given ''ISS001'', kw_station_name = Given ''International Space Station'',
      kw_crew_size = Given 6, kw_power_level = Given 85.5, kw_oxygen_level = Given 92.3,
      kw_last_maintenance = Given (Datetime 2024 2 1 10 30 0 0),
      kw_is_operational = Given True, kw_notes = Given (Some ''All systems nominal.'')\<rparr>"

definition station_bad :: SpaceStation_kwargs where
  "station_bad =
     \<lparr>kw_station_id = Given ''BAD01'', kw_station_name = Given ''Too Many Crew Station'',
      kw_crew_size = Given 25, kw_power_level = Given 80, kw_oxygen_level = Given 90,
      kw_last_maintenance = Given (Datetime 2024 2 1 10 30 0 0),
      kw_is_operational = Absent, kw_notes = Absent\<rparr>"

definition iss :: SpaceStation where
  "iss =
     \<lparr>station_id = ''ISS001'', station_name = ''International Space Station'', crew_size = 6,
      power_level = 85.5, oxygen_level = 92.3, last_maintenance = Datetime 2024 2 1 10 30 0 0,
      is_operational = True, station_notes = Some ''All systems nominal.''\<rparr>"

definition valid_contact :: AlienContact_kwargs where
  "valid_contact =
     \<lparr>kw_contact_id = Given ''AC_2024_001'', kw_timestamp = Given (Datetime 2024 6 1 14 30 0 0),
      kw_location = Given ''Area 51, Nevada'', kw_contact_type = Given radio,
      kw_signal_strength = Given 8.5, kw_duration_minutes = Given 45,
      kw_witness_count = Given 5,
      kw_message_received = Given (Some ''Greetings from Zeta Reticuli''),
      kw_is_verified = Given False\<rparr>"

definition invalid_contact :: AlienContact_kwargs where
  "invalid_contact =
     \<lparr>kw_contact_id = Given ''AC_2024_002'', kw_timestamp = Given (Datetime 2024 6 1 14 30 0 0),
      kw_location = Given ''Desert Outpost'', kw_contact_type = Given telepathic,
      kw_signal_strength = Given 6, kw_duration_minutes = Given 10,
      kw_witness_count = Given 1, kw_message_received = Given None,
      kw_is_verified = Given False\<rparr>"

definition sarah :: CrewMember_kwargs where
  "sarah =
     \<lparr>kw_member_id = Given ''C03'', kw_member_name = Given ''Sarah Connor'',
      kw_rank = Given commander, kw_age = Given 45,
      kw_specialization = Given ''mission command'', kw_years_experience = Given 20,
      kw_is_active = Given True\<rparr>"

definition john :: CrewMember_kwargs where
  "john =
     \<lparr>kw_member_id = Given ''C04'', kw_member_name = Given ''John Smith'',
      kw_rank = Given officer, kw_age = Given 29, kw_specialization = Given ''engineering'',
      kw_years_experience = Given 29, kw_is_active = Given True\<rparr>"

definition alice :: CrewMember_kwargs where
  "alice =
     \<lparr>kw_member_id = Given ''C01'', kw_member_name = Given ''Alice'',
      kw_rank = Given officer, kw_age = Given 30, kw_specialization = Given ''engineering'',
      kw_years_experience = Given 6, kw_is_active = Given True\<rparr>"

definition bob :: CrewMember_kwargs where
  "bob =
     \<lparr>kw_member_id = Given ''C02'', kw_member_name = Given ''Bob'',
      kw_rank = Given lieutenant, kw_age = Given 35, kw_specialization = Given ''navigation'',
      kw_years_experience = Given 10, kw_is_active = Given True\<rparr>"

text \<open>
  The two crews of the source: lists of the instances that \<^verbatim>\<open>CrewMember\<close> builds from
  the keyword arguments above.
\<close>

definition crew_with_leader :: "CrewMember list" where
  "crew_with_leader =
     [CrewMember_of ''C03'' ''Sarah Connor'' commander 45 ''mission command'' 20 True,
      CrewMember_of ''C04'' ''John Smith'' officer 29 ''engineering'' 29 True]"

definition crew_no_leader :: "CrewMember list" where
  "crew_no_leader =
     [CrewMember_of ''C01'' ''Alice'' officer 30 ''engineering'' 6 True,
      CrewMember_of ''C02'' ''Bob'' lieutenant 35 ''navigation'' 10 True]"

definition mission_ok :: SpaceMission_kwargs where
  "mission_ok =
     \<lparr>kw_mission_id = Given ''M2026_OK'', kw_mission_name = Given ''Mars Exploration Mission'',
      kw_destination = Given ''Mars'', kw_launch_date = Given (Datetime 2026 1 1 0 0 0 0),
      kw_duration_days = Given 900, kw_crew = Given (map Instance crew_with_leader),
      kw_mission_status = Absent, kw_budget_millions = Given 2500\<rparr>"

definition mission_err :: SpaceMission_kwargs where
  "mission_err =
     \<lparr>kw_mission_id = Given ''M2026_ERR'',
      kw_mission_name = Given ''Test Mission Without Leader'',
      kw_destination = Given ''Mars'', kw_launch_date = Given (Datetime 2026 1 1 0 0 0 0),
      kw_duration_days = Given 120, kw_crew = Given (map Instance crew_no_leader),
      kw_mission_status = Absent, kw_budget_millions = Given 800\<rparr>"

text \<open>The instances that the valid inputs build.\<close>

definition mars_mission :: SpaceMission where
  "mars_mission =
     SpaceMission_of ''M2026_OK'' ''Mars Exploration Mission'' ''Mars''
       (Datetime 2026 1 1 0 0 0 0) 900 crew_with_leader ''planned'' 2500"

definition telepathic_contact :: AlienContact where
  "telepathic_contact =
     AlienContact_of ''AC_2024_002'' (Datetime 2024 6 1 14 30 0 0) ''Desert Outpost''
       telepathic 6 10 1 None False"

text \<open>Variations of them: an identifier without its prefix, a crew of thirteen.\<close>

definition contact_wrong_prefix :: AlienContact_kwargs where
  "contact_wrong_prefix = invalid_contact\<lparr>kw_contact_id := Given ''XX_2024_002''\<rparr>"

definition mission_wrong_prefix :: SpaceMission_kwargs where
  "mission_wrong_prefix = mission_ok\<lparr>kw_mission_id := Given ''X2026_OK''\<rparr>"

definition mission_overlong :: SpaceMission_kwargs where
  "mission_overlong =
     mission_ok\<lparr>kw_crew :=
       Given (Fields (john\<lparr>kw_age := Given 17\<rparr>) # Fields sarah # replicate 11 (Fields john))\<rparr>"

definition mission_leaderless_inactive :: SpaceMission_kwargs where
  "mission_leaderless_inactive =
     mission_err\<lparr>kw_crew := Given [Fields alice, Fields (bob\<lparr>kw_is_active := Given False\<rparr>)]\<rparr>"

definition contact_unverified_silent :: AlienContact_kwargs where
  "contact_unverified_silent =
     valid_contact\<lparr>kw_contact_type := Given physical, kw_message_received := Absent,
       kw_is_verified := Absent\<rparr>"

definition mission_one_of_three :: SpaceMission_kwargs where
  "mission_one_of_three =
     mission_ok\<lparr>kw_crew :=
       Given [Fields sarah, Fields (john\<lparr>kw_years_experience := Given 2\<rparr>),
              Fields (john\<lparr>kw_years_experience := Given 3\<rparr>)]\<rparr>"

definition crew_one_of_three :: "CrewMember list" where
  "crew_one_of_three =
     [CrewMember_of ''C03'' ''Sarah Connor'' commander 45 ''mission command'' 20 True,
      CrewMember_of ''C04'' ''John Smith'' officer 29 ''engineering'' 2 True,
      CrewMember_of ''C04'' ''John Smith'' officer 29 ''engineering'' 3 True]"

text \<open>
  A crew in which the second member was assigned the age 17 after it was built, and the
  mission of the demonstration with that crew.
\<close>

definition crew_with_minor :: "CrewMember list" where
  "crew_with_minor =
     [CrewMember_of ''C03'' ''Sarah Connor'' commander 45 ''mission command'' 20 True,
      assign_age 17 (CrewMember_of ''C04'' ''John Smith'' officer 29 ''engineering'' 29 True)]"

definition mission_with_minor :: SpaceMission_kwargs where
  "mission_with_minor = mission_ok\<lparr>kw_crew := Given (map Instance crew_with_minor)\<rparr>"

section \<open>Collecting the errors of the fields\<close>

lemma ap_Inr_iff: "ap f x = Inr v \<longleftrightarrow> (\<exists>g a. f = Inr g \<and> x = Inr a \<and> v = g a)"
  by (cases f; cases x) auto

lemma errors_ap: "errors (ap f x) = errors f @ errors x"
  by (cases f; cases x) simp_all

lemma field_Inr_iff:
  "field chk terr dflt f inp = Inr v \<longleftrightarrow>
     (inp = Absent \<and> dflt = Some v) \<or> (inp = Given v \<and> chk v = None)"
  by (cases inp) (auto split: option.splits)

lemma proper_Inr: "proper (Inr v)"
  by (simp add: proper_def)

lemma proper_field: "proper (field chk terr dflt f inp)"
  by (cases inp) (simp_all add: proper_def split: option.splits)

lemma proper_ap: "proper f \<Longrightarrow> proper x \<Longrightarrow> proper (ap f x)"
  by (cases f; cases x) (simp_all add: proper_def)

lemma proper_errors: "proper r \<Longrightarrow> errors r \<noteq> [] \<Longrightarrow> r = Inl (errors r)"
  by (cases r) simp_all

section \<open>The station\<close>

lemma validate_station_Inr_iff:
  "validate_station kw = Inr st \<longleftrightarrow>
     field (str_length (Some 3) (Some 10)) TypeError None ''station_id'' (kw_station_id kw)
       = Inr (station_id st) \<and>
     field (str_length (Some 1) (Some 50)) TypeError None ''name'' (kw_station_name kw)
       = Inr (station_name st) \<and>
     field (ge_le 1 20) TypeError None ''crew_size'' (kw_crew_size kw) = Inr (crew_size st) \<and>
     field (ge_le 0 100) TypeError None ''power_level'' (kw_power_level kw)
       = Inr (power_level st) \<and>
     field (ge_le 0 100) TypeError None ''oxygen_level'' (kw_oxygen_level kw)
       = Inr (oxygen_level st) \<and>
     field unconstrained TypeError None ''last_maintenance'' (kw_last_maintenance kw)
       = Inr (last_maintenance st) \<and>
     field unconstrained TypeError (Some True) ''is_operational'' (kw_is_operational kw)
       = Inr (is_operational st) \<and>
     field (nullable (str_length None (Some 200))) TypeError (Some None) ''notes'' (kw_notes kw)
       = Inr (station_notes st)"
  unfolding validate_station_def ap_Inr_iff SpaceStation_of_def
  by (cases st) auto

lemma validate_station_ok: "validate_station station_ok = Inr iss"
  by (simp add: validate_station_def station_ok_def iss_def SpaceStation_of_def
      str_length_def ge_le_def unconstrained_def nullable_def)

text \<open>
  C6. The bounds of \<^verbatim>\<open>crew_size: int = Field(ge=1, le=20)\<close> are inclusive: a station
  input that is valid stays valid with any crew size from 1 to 20, both included, in its
  place; with the crew size 25 it is rejected with exactly one violation, a range error
  located at \<^verbatim>\<open>crew_size\<close>.
\<close>

theorem crew_size_range_inclusive:
  assumes "validate_station kw = Inr st"
  shows "(1 \<le> n \<and> n \<le> 20 \<longrightarrow>
            validate_station (kw\<lparr>kw_crew_size := Given n\<rparr>) = Inr (st\<lparr>crew_size := n\<rparr>))
       \<and> validate_station (kw\<lparr>kw_crew_size := Given 25\<rparr>)
            = Inl [Violation [Key ''crew_size''] LessThanEqual]
       \<and> is_range_error LessThanEqual"
proof -
  note fs = assms [unfolded validate_station_Inr_iff]
  have "validate_station (kw\<lparr>kw_crew_size := Given n\<rparr>) = Inr (st\<lparr>crew_size := n\<rparr>)"
    if "1 \<le> n" "n \<le> 20"
    using fs that by (simp add: validate_station_Inr_iff ge_le_def)
  moreover have "validate_station (kw\<lparr>kw_crew_size := Given 25\<rparr>)
      = Inl [Violation [Key ''crew_size''] LessThanEqual]"
    using fs by (simp add: validate_station_def ge_le_def)
  ultimately show ?thesis by simp
qed

theorem crew_size_range_inclusive_witness:
  "validate_station station_ok = Inr iss
   \<and> validate_station (station_ok\<lparr>kw_crew_size := Given 1\<rparr>) = Inr (iss\<lparr>crew_size := 1\<rparr>)
   \<and> validate_station (station_ok\<lparr>kw_crew_size := Given 20\<rparr>) = Inr (iss\<lparr>crew_size := 20\<rparr>)
   \<and> validate_station (station_ok\<lparr>kw_crew_size := Given 25\<rparr>)
        = Inl [Violation [Key ''crew_size''] LessThanEqual]"
  using crew_size_range_inclusive [OF validate_station_ok, of 1]
    crew_size_range_inclusive [OF validate_station_ok, of 20] validate_station_ok
  by simp

section \<open>Evaluation\<close>

lemmas constraint_defs = str_length_def ge_le_def unconstrained_def nullable_def

lemmas model_defs =
  validate_station_def contact_fields_def validate_contact_def validate_crew_member_def
  mission_fields_def validate_mission_def model_validator_def validate_business_rules_def
  validate_mission_id_def SpaceStation_of_def AlienContact_of_def CrewMember_of_def
  SpaceMission_of_def startswith_def under_def Let_def

lemmas input_defs =
  station_ok_def station_bad_def iss_def valid_contact_def invalid_contact_def sarah_def
  john_def alice_def bob_def mission_ok_def mission_err_def crew_with_leader_def
  crew_no_leader_def mars_mission_def telepathic_contact_def contact_wrong_prefix_def
  mission_wrong_prefix_def mission_overlong_def mission_leaderless_inactive_def
  contact_unverified_silent_def mission_one_of_three_def crew_one_of_three_def
  crew_with_minor_def mission_with_minor_def assign_age_def

lemmas rule_defs =
  violated_def contact_rules_def mission_rules_def leader_present_def experienced_def
  all_active_def

section \<open>The contact report\<close>

lemma model_validator_Inr [simp]:
  "model_validator v (Inr m) =
     (case v m of Inl t \<Rightarrow> Inl [Violation [] (ValueError t)] | Inr m' \<Rightarrow> Inr m')"
  by (simp add: model_validator_def)

lemma model_validator_Inl [simp]: "model_validator v (Inl e) = Inl e"
  by (simp add: model_validator_def)

lemma contact_fields_Inr_iff:
  "contact_fields kw = Inr c \<longleftrightarrow>
     field (str_length (Some 5) (Some 15)) TypeError None ''contact_id'' (kw_contact_id kw)
       = Inr (contact_id c) \<and>
     field unconstrained TypeError None ''timestamp'' (kw_timestamp kw) = Inr (timestamp c) \<and>
     field (str_length (Some 3) (Some 100)) TypeError None ''location'' (kw_location kw)
       = Inr (location c) \<and>
     field unconstrained EnumError None ''contact_type'' (kw_contact_type kw)
       = Inr (contact_type c) \<and>
     field (ge_le 0 10) TypeError None ''signal_strength'' (kw_signal_strength kw)
       = Inr (signal_strength c) \<and>
     field (ge_le 1 1440) TypeError None ''duration_minutes'' (kw_duration_minutes kw)
       = Inr (duration_minutes c) \<and>
     field (ge_le 1 100) TypeError None ''witness_count'' (kw_witness_count kw)
       = Inr (witness_count c) \<and>
     field (nullable (str_length None (Some 500))) TypeError (Some None) ''message_received''
         (kw_message_received kw) = Inr (message_received c) \<and>
     field unconstrained TypeError (Some False) ''is_verified'' (kw_is_verified kw)
       = Inr (is_verified c)"
  unfolding contact_fields_def ap_Inr_iff AlienContact_of_def
  by (cases c) auto

lemma invalid_contact_fields: "contact_fields invalid_contact = Inr telepathic_contact"
  by (simp add: model_defs input_defs constraint_defs)

text \<open>
  C5, as amended. A contact report that passes every field constraint, whose identifier
  starts with \<^verbatim>\<open>AC\<close> and whose type is telepathic, is rejected when it has fewer than 3
  witnesses (1, in particular) with exactly one violation, the business-rule error raised
  with the text \<^verbatim>\<open>Telepathic contact requires at least 3 witnesses\<close>; with 3 witnesses or
  more that violation is not reported.
\<close>

theorem telepathic_needs_three_witnesses:
  assumes "contact_fields kw = Inr c" and "startswith (contact_id c) ''AC''"
    and "contact_type c = telepathic"
  shows "(witness_count c < 3 \<longrightarrow>
            validate_contact kw
              = Inl [Violation [] (ValueError ''Telepathic contact requires at least 3 witnesses'')]
            \<and> is_business_rule_error
                (ValueError ''Telepathic contact requires at least 3 witnesses''))
       \<and> (3 \<le> witness_count c \<longrightarrow>
            validate_contact kw
              \<noteq> Inl [Violation [] (ValueError ''Telepathic contact requires at least 3 witnesses'')])"
  using assms by (simp add: validate_contact_def validate_business_rules_def)

theorem telepathic_needs_three_witnesses_witness:
  "contact_fields invalid_contact = Inr telepathic_contact
   \<and> validate_contact invalid_contact
       = Inl [Violation [] (ValueError ''Telepathic contact requires at least 3 witnesses'')]
   \<and> validate_contact (invalid_contact\<lparr>kw_witness_count := Given 3\<rparr>)
       = Inr (telepathic_contact\<lparr>witness_count := 3\<rparr>)"
proof -
  have three: "contact_fields (invalid_contact\<lparr>kw_witness_count := Given 3\<rparr>)
      = Inr (telepathic_contact\<lparr>witness_count := 3\<rparr>)"
    by (simp add: model_defs input_defs constraint_defs)
  have "validate_contact (invalid_contact\<lparr>kw_witness_count := Given 3\<rparr>)
      = Inr (telepathic_contact\<lparr>witness_count := 3\<rparr>)"
    by (simp add: model_defs input_defs constraint_defs)
  then show ?thesis
    using telepathic_needs_three_witnesses [OF invalid_contact_fields]
      telepathic_needs_three_witnesses [OF three] invalid_contact_fields
    by (simp add: telepathic_contact_def AlienContact_of_def startswith_def)
qed

text \<open>
  C5 as the specification states it fails for an identifier without the prefix: every field
  constraint passes, the type is telepathic and there is 1 witness, but the violation
  reported is the one of the identifier rule, which is checked first.
\<close>

theorem telepathic_message_counterexample:
  "contact_fields contact_wrong_prefix
     = Inr (telepathic_contact\<lparr>contact_id := ''XX_2024_002''\<rparr>)
   \<and> contact_type (telepathic_contact\<lparr>contact_id := ''XX_2024_002''\<rparr>) = telepathic
   \<and> witness_count (telepathic_contact\<lparr>contact_id := ''XX_2024_002''\<rparr>) = 1
   \<and> validate_contact contact_wrong_prefix
       = Inl [Violation []
               (ValueError (''Contact ID must start with '' @ [apostrophe] @ ''AC''
                  @ [apostrophe] @ '' (Alien Contact)''))]
   \<and> validate_contact contact_wrong_prefix
       \<noteq> Inl [Violation [] (ValueError ''telepathic contact requires at least 3 witnesses'')]"
  by (simp add: model_defs input_defs constraint_defs)

text \<open>
  C8. When \<^verbatim>\<open>is_verified\<close> is not passed, the instance has \<^verbatim>\<open>is_verified = False\<close>; so
  an input of type physical without it, with a well-formed identifier, is rejected by the
  rule on verified physical contacts.
\<close>

theorem is_verified_defaults_to_false:
  assumes "kw_is_verified kw = Absent" and "contact_fields kw = Inr c"
  shows "\<not> is_verified c
     \<and> (startswith (contact_id c) ''AC'' \<and> contact_type c = physical \<longrightarrow>
          validate_contact kw
            = Inl [Violation [] (ValueError ''Physical contact reports must be verified'')])"
proof -
  have "\<not> is_verified c"
    using assms by (auto simp: contact_fields_Inr_iff)
  then show ?thesis
    using assms(2) by (simp add: validate_contact_def validate_business_rules_def)
qed

theorem is_verified_defaults_to_false_witness:
  "kw_is_verified contact_unverified_silent = Absent
   \<and> contact_fields contact_unverified_silent
       = Inr (AlienContact_of ''AC_2024_001'' (Datetime 2024 6 1 14 30 0 0)
               ''Area 51, Nevada'' physical 8.5 45 5 None False)
   \<and> validate_contact contact_unverified_silent
       = Inl [Violation [] (ValueError ''Physical contact reports must be verified'')]"
proof -
  have a: "kw_is_verified contact_unverified_silent = Absent"
    by (simp add: input_defs)
  have f: "contact_fields contact_unverified_silent
      = Inr (AlienContact_of ''AC_2024_001'' (Datetime 2024 6 1 14 30 0 0)
              ''Area 51, Nevada'' physical 8.5 45 5 None False)"
    by (simp add: model_defs input_defs constraint_defs)
  show ?thesis
    using is_verified_defaults_to_false [OF a f] a f
    by (simp add: AlienContact_of_def startswith_def)
qed

section \<open>The crew member and the mission\<close>


lemma under_Inr_iff [simp]: "under k r = Inr v \<longleftrightarrow> r = Inr v"
  by (cases r) (simp_all add: under_def)

lemma validate_items_Inr_iff:
  "validate_items item i xs = Inr ys \<longleftrightarrow> list_all2 (\<lambda>x y. item x = Inr y) xs ys"
proof (induction xs arbitrary: i ys)
  case Nil
  then show ?case by auto
next
  case (Cons x xs)
  then show ?case by (cases ys) (auto simp: ap_Inr_iff)
qed

lemma list_field_Inr_iff:
  "list_field lo hi item f inp = Inr ys \<longleftrightarrow>
     (\<exists>xs. inp = Given xs \<and> lo \<le> length xs \<and> length xs \<le> hi
        \<and> list_all2 (\<lambda>x y. item x = Inr y) xs ys)"
proof (cases inp)
  case (Given xs)
  show ?thesis
  proof (cases "validate_items item 0 xs")
    case (Inl e)
    then have "\<not> list_all2 (\<lambda>x y. item x = Inr y) xs ys"
      using validate_items_Inr_iff [of item 0 xs ys] by simp
    with Inl Given show ?thesis by (simp add: under_def)
  next
    case (Inr zs)
    then have zs: "list_all2 (\<lambda>x y. item x = Inr y) xs zs"
      by (simp add: validate_items_Inr_iff)
    then have len: "length zs = length xs"
      by (simp add: list_all2_lengthD)
    have "list_all2 (\<lambda>x y. item x = Inr y) xs ys \<longleftrightarrow> ys = zs"
    proof
      assume "list_all2 (\<lambda>x y. item x = Inr y) xs ys"
      then have "validate_items item 0 xs = Inr ys"
        by (simp add: validate_items_Inr_iff)
      with Inr show "ys = zs" by simp
    next
      assume "ys = zs"
      with zs show "list_all2 (\<lambda>x y. item x = Inr y) xs ys" by simp
    qed
    with Inr Given len show ?thesis by (auto simp: under_def)
  qed
qed simp_all

lemma mission_fields_Inr_iff:
  "mission_fields kw = Inr m \<longleftrightarrow>
     field (str_length (Some 5) (Some 15)) TypeError None ''mission_id'' (kw_mission_id kw)
       = Inr (mission_id m) \<and>
     field (str_length (Some 3) (Some 100)) TypeError None ''mission_name''
         (kw_mission_name kw) = Inr (mission_name m) \<and>
     field (str_length (Some 3) (Some 50)) TypeError None ''destination'' (kw_destination kw)
       = Inr (destination m) \<and>
     field unconstrained TypeError None ''launch_date'' (kw_launch_date kw)
       = Inr (launch_date m) \<and>
     field (ge_le 1 3650) TypeError None ''duration_days'' (kw_duration_days kw)
       = Inr (duration_days m) \<and>
     list_field 1 12 validate_item ''crew'' (kw_crew kw) = Inr (crew m) \<and>
     field unconstrained TypeError (Some ''planned'') ''mission_status''
         (kw_mission_status kw) = Inr (mission_status m) \<and>
     field (ge_le 1 10000) TypeError None ''budget_millions'' (kw_budget_millions kw)
       = Inr (budget_millions m)"
  unfolding mission_fields_def ap_Inr_iff SpaceMission_of_def
  by (cases m) auto

text \<open>The model validator of the mission, in the vocabulary of the rules.\<close>

lemma validate_mission_id_alt:
  "validate_mission_id m =
     (if \<not> startswith (mission_id m) ''M'' then
        Inl (''Mission ID must start with '' @ [apostrophe] @ ''M'' @ [apostrophe])
      else if \<not> leader_present m then
        Inl ''Mission must have at least one Captain or Commander''
      else if 365 < duration_days m \<and> real (experienced m) < real (length (crew m)) / 2 then
        Inl ''Long missions require at least 50% experienced crew (5+ years)''
      else if \<not> all_active m then Inl ''All crew members must be active''
      else Inr m)"
  by (simp add: validate_mission_id_def leader_present_def experienced_def all_active_def
      Let_def list_ex_iff list_all_iff)

lemma validate_mission_id_Inr_iff:
  "validate_mission_id m = Inr m' \<longleftrightarrow>
     m' = m \<and> startswith (mission_id m) ''M'' \<and> leader_present m
     \<and> \<not> (365 < duration_days m \<and> real (experienced m) < real (length (crew m)) / 2)
     \<and> all_active m"
  by (auto simp: validate_mission_id_alt)

lemma validate_mission_Inr_iff:
  "validate_mission kw = Inr m \<longleftrightarrow> mission_fields kw = Inr m \<and> validate_mission_id m = Inr m"
proof (cases "mission_fields kw")
  case (Inl e)
  then show ?thesis by (simp add: validate_mission_def)
next
  case fields: (Inr a)
  show ?thesis
  proof (cases "validate_mission_id a")
    case (Inl t)
    with fields show ?thesis by (auto simp: validate_mission_def)
  next
    case (Inr b)
    then have "b = a" by (simp add: validate_mission_id_Inr_iff)
    with Inr fields show ?thesis by (auto simp: validate_mission_def)
  qed
qed

lemma mission_ok_fields: "mission_fields mission_ok = Inr mars_mission"
  by (simp add: model_defs input_defs constraint_defs)

lemma mission_ok_valid: "validate_mission mission_ok = Inr mars_mission"
  by (simp add: validate_mission_Inr_iff mission_ok_fields validate_mission_id_Inr_iff)
     (simp add: model_defs input_defs rule_defs)

text \<open>
  C4, as amended. For a mission input that passes every field constraint, whose
  identifier starts with \<^verbatim>\<open>M\<close>, with a captain or commander in the crew and every member
  active: when the mission lasts more than 365 days it validates exactly when the number
  of members with at least 5 years of experience is at least half the size of the crew,
  the half being the exact quotient; when it lasts 365 days or less it validates, whatever
  the experience of the crew.
\<close>

theorem long_mission_needs_experienced_half:
  assumes "mission_fields kw = Inr m" and "startswith (mission_id m) ''M''"
    and "leader_present m" and "all_active m"
  shows "(365 < duration_days m \<longrightarrow>
            (validate_mission kw = Inr m
               \<longleftrightarrow> real (length (crew m)) / 2 \<le> real (experienced m)))
       \<and> (duration_days m \<le> 365 \<longrightarrow> validate_mission kw = Inr m)"
  using assms by (auto simp: validate_mission_Inr_iff validate_mission_id_Inr_iff)

theorem long_mission_needs_experienced_half_witness:
  "mission_fields mission_ok = Inr mars_mission
   \<and> validate_mission mission_ok = Inr mars_mission
   \<and> mission_fields mission_one_of_three = Inr (mars_mission\<lparr>crew := crew_one_of_three\<rparr>)
   \<and> experienced (mars_mission\<lparr>crew := crew_one_of_three\<rparr>) = 1
   \<and> validate_mission mission_one_of_three \<noteq> Inr (mars_mission\<lparr>crew := crew_one_of_three\<rparr>)
   \<and> validate_mission (mission_one_of_three\<lparr>kw_duration_days := Given 365\<rparr>)
       = Inr (mars_mission\<lparr>crew := crew_one_of_three, duration_days := 365\<rparr>)"
proof -
  have f3: "mission_fields mission_one_of_three
      = Inr (mars_mission\<lparr>crew := crew_one_of_three\<rparr>)"
    by (simp add: model_defs input_defs constraint_defs)
  have f4: "mission_fields (mission_one_of_three\<lparr>kw_duration_days := Given 365\<rparr>)
      = Inr (mars_mission\<lparr>crew := crew_one_of_three, duration_days := 365\<rparr>)"
    by (simp add: model_defs input_defs constraint_defs)
  have e: "experienced (mars_mission\<lparr>crew := crew_one_of_three\<rparr>) = 1"
    by (simp add: model_defs input_defs rule_defs)
  show ?thesis
    using long_mission_needs_experienced_half [OF mission_ok_fields]
      long_mission_needs_experienced_half [OF f3] long_mission_needs_experienced_half [OF f4]
      mission_ok_fields f3 e
    by (simp add: model_defs input_defs rule_defs)
qed

text \<open>
  C4 as the specification states it fails for an identifier without the prefix: every field
  constraint passes, the crew has a commander, every member is active, the mission is a
  long one and both members are experienced, but the mission is rejected.
\<close>

theorem long_mission_counterexample:
  "mission_fields mission_wrong_prefix = Inr (mars_mission\<lparr>mission_id := ''X2026_OK''\<rparr>)
   \<and> leader_present (mars_mission\<lparr>mission_id := ''X2026_OK''\<rparr>)
   \<and> all_active (mars_mission\<lparr>mission_id := ''X2026_OK''\<rparr>)
   \<and> 365 < duration_days (mars_mission\<lparr>mission_id := ''X2026_OK''\<rparr>)
   \<and> real (length (crew (mars_mission\<lparr>mission_id := ''X2026_OK''\<rparr>))) / 2
       \<le> real (experienced (mars_mission\<lparr>mission_id := ''X2026_OK''\<rparr>))
   \<and> validate_mission mission_wrong_prefix
       = Inl [Violation []
               (ValueError (''Mission ID must start with '' @ [apostrophe] @ ''M''
                  @ [apostrophe]))]"
  by (simp add: model_defs input_defs constraint_defs rule_defs)

lemma validate_mission_id_status:
  "validate_mission_id m = Inr m \<Longrightarrow>
   validate_mission_id (m\<lparr>mission_status := s\<rparr>) = Inr (m\<lparr>mission_status := s\<rparr>)"
  by (simp add: validate_mission_id_Inr_iff leader_present_def experienced_def all_active_def)

text \<open>
  C9. \<^verbatim>\<open>mission_status\<close> is free text: a mission input that is valid stays valid with any
  string in that field, and without the field the status of the mission is
  \<^verbatim>\<open>planned\<close>.
\<close>

theorem mission_status_free_text:
  assumes "validate_mission kw = Inr m"
  shows "validate_mission (kw\<lparr>kw_mission_status := Given s\<rparr>) = Inr (m\<lparr>mission_status := s\<rparr>)
       \<and> validate_mission (kw\<lparr>kw_mission_status := Absent\<rparr>)
            = Inr (m\<lparr>mission_status := ''planned''\<rparr>)"
proof -
  from assms have f: "mission_fields kw = Inr m" and v: "validate_mission_id m = Inr m"
    by (simp_all add: validate_mission_Inr_iff)
  have "mission_fields (kw\<lparr>kw_mission_status := Given s\<rparr>) = Inr (m\<lparr>mission_status := s\<rparr>)"
    using f by (simp add: mission_fields_Inr_iff unconstrained_def)
  moreover have "mission_fields (kw\<lparr>kw_mission_status := Absent\<rparr>)
      = Inr (m\<lparr>mission_status := ''planned''\<rparr>)"
    using f by (simp add: mission_fields_Inr_iff)
  ultimately show ?thesis
    using validate_mission_id_status [OF v] by (simp add: validate_mission_Inr_iff)
qed

theorem mission_status_free_text_witness:
  "validate_mission mission_ok = Inr mars_mission
   \<and> validate_mission (mission_ok\<lparr>kw_mission_status := Given ''''\<rparr>)
       = Inr (mars_mission\<lparr>mission_status := ''''\<rparr>)
   \<and> validate_mission (mission_ok\<lparr>kw_mission_status := Given ''not a status! ''\<rparr>)
       = Inr (mars_mission\<lparr>mission_status := ''not a status! ''\<rparr>)
   \<and> validate_mission (mission_ok\<lparr>kw_mission_status := Absent\<rparr>)
       = Inr (mars_mission\<lparr>mission_status := ''planned''\<rparr>)"
  using mission_status_free_text [OF mission_ok_valid, of "''''"]
    mission_status_free_text [OF mission_ok_valid, of "''not a status! ''"] mission_ok_valid
  by simp





section \<open>Business rules: the first violated rule\<close>

lemma validate_business_rules_first:
  "validate_business_rules c =
     (case violated contact_rules c of [] \<Rightarrow> Inr c | t # ts \<Rightarrow> Inl t)"
  by (simp add: validate_business_rules_def violated_def contact_rules_def)

lemma validate_mission_id_first:
  "validate_mission_id m =
     (case violated mission_rules m of [] \<Rightarrow> Inr m | t # ts \<Rightarrow> Inl t)"
  by (simp add: validate_mission_id_alt violated_def mission_rules_def)

lemma two_violations_hd: "2 \<le> length ts \<Longrightarrow> ts = hd ts # tl ts"
  by (cases ts) simp_all

text \<open>
  C2. A record that passes every field constraint and violates two or more business rules
  at once is rejected with exactly one violation: that of the first of the violated rules,
  in the order in which the validator declares them.
\<close>

theorem first_violated_rule_only:
  "(contact_fields kw = Inr c \<and> 2 \<le> length (violated contact_rules c) \<longrightarrow>
      validate_contact kw = Inl [Violation [] (ValueError (hd (violated contact_rules c)))])
   \<and> (mission_fields kw' = Inr m \<and> 2 \<le> length (violated mission_rules m) \<longrightarrow>
      validate_mission kw' = Inl [Violation [] (ValueError (hd (violated mission_rules m)))])"
proof (intro conjI impI; elim conjE)
  assume f: "contact_fields kw = Inr c" and n: "2 \<le> length (violated contact_rules c)"
  have "validate_business_rules c = Inl (hd (violated contact_rules c))"
    unfolding validate_business_rules_first by (subst two_violations_hd [OF n]) simp
  with f show "validate_contact kw
      = Inl [Violation [] (ValueError (hd (violated contact_rules c)))]"
    by (simp add: validate_contact_def)
next
  assume f: "mission_fields kw' = Inr m" and n: "2 \<le> length (violated mission_rules m)"
  have "validate_mission_id m = Inl (hd (violated mission_rules m))"
    unfolding validate_mission_id_first by (subst two_violations_hd [OF n]) simp
  with f show "validate_mission kw'
      = Inl [Violation [] (ValueError (hd (violated mission_rules m)))]"
    by (simp add: validate_mission_def)
qed

theorem first_violated_rule_only_witness:
  "contact_fields contact_unverified_silent
     = Inr (AlienContact_of ''AC_2024_001'' (Datetime 2024 6 1 14 30 0 0)
             ''Area 51, Nevada'' physical 8.5 45 5 None False)
   \<and> violated contact_rules
        (AlienContact_of ''AC_2024_001'' (Datetime 2024 6 1 14 30 0 0)
             ''Area 51, Nevada'' physical 8.5 45 5 None False)
     = [''Physical contact reports must be verified'',
        ''Strong signals (> 7.0) should include a received message'']
   \<and> validate_contact contact_unverified_silent
     = Inl [Violation [] (ValueError ''Physical contact reports must be verified'')]
   \<and> mission_fields mission_leaderless_inactive
     = Inr (SpaceMission_of ''M2026_ERR'' ''Test Mission Without Leader'' ''Mars''
             (Datetime 2026 1 1 0 0 0 0) 120
             [CrewMember_of ''C01'' ''Alice'' officer 30 ''engineering'' 6 True,
              CrewMember_of ''C02'' ''Bob'' lieutenant 35 ''navigation'' 10 False]
             ''planned'' 800)
   \<and> violated mission_rules
        (SpaceMission_of ''M2026_ERR'' ''Test Mission Without Leader'' ''Mars''
             (Datetime 2026 1 1 0 0 0 0) 120
             [CrewMember_of ''C01'' ''Alice'' officer 30 ''engineering'' 6 True,
              CrewMember_of ''C02'' ''Bob'' lieutenant 35 ''navigation'' 10 False]
             ''planned'' 800)
     = [''Mission must have at least one Captain or Commander'',
        ''All crew members must be active'']
   \<and> validate_mission mission_leaderless_inactive
     = Inl [Violation [] (ValueError ''Mission must have at least one Captain or Commander'')]"
proof -
  let ?c = "AlienContact_of ''AC_2024_001'' (Datetime 2024 6 1 14 30 0 0)
             ''Area 51, Nevada'' physical 8.5 45 5 None False"
  let ?m = "SpaceMission_of ''M2026_ERR'' ''Test Mission Without Leader'' ''Mars''
             (Datetime 2026 1 1 0 0 0 0) 120
             [CrewMember_of ''C01'' ''Alice'' officer 30 ''engineering'' 6 True,
              CrewMember_of ''C02'' ''Bob'' lieutenant 35 ''navigation'' 10 False]
             ''planned'' 800"
  have fc: "contact_fields contact_unverified_silent = Inr ?c"
    by (simp add: model_defs input_defs constraint_defs)
  have vc: "violated contact_rules ?c
      = [''Physical contact reports must be verified'',
         ''Strong signals (> 7.0) should include a received message'']"
    by (simp add: model_defs rule_defs)
  have fm: "mission_fields mission_leaderless_inactive = Inr ?m"
    by (simp add: model_defs input_defs constraint_defs)
  have vm: "violated mission_rules ?m
      = [''Mission must have at least one Captain or Commander'',
         ''All crew members must be active'']"
    by (simp add: model_defs rule_defs)
  show ?thesis
    using first_violated_rule_only
        [of contact_unverified_silent ?c mission_leaderless_inactive ?m] fc vc fm vm
    by simp
qed

section \<open>Outcomes are well formed\<close>

lemma proper_under: "proper r \<Longrightarrow> proper (under k r)"
  by (cases r) (simp_all add: under_def proper_def)

lemma proper_validate_items:
  "(\<And>x. proper (item x)) \<Longrightarrow> proper (validate_items item i xs)"
  by (induction xs arbitrary: i) (simp_all add: proper_Inr proper_ap proper_under)

lemma proper_list_field:
  assumes "\<And>x. proper (item x)"
  shows "proper (list_field lo hi item f inp)"
proof (cases inp)
  case (Given xs)
  have p: "proper (validate_items item 0 xs)"
    using assms by (rule proper_validate_items)
  show ?thesis
  proof (cases "validate_items item 0 xs")
    case (Inl e)
    with p Given show ?thesis by (simp add: proper_def under_def)
  next
    case (Inr ys)
    with Given show ?thesis by (simp add: proper_def under_def)
  qed
qed (simp_all add: proper_def)

lemma proper_model_validator: "proper r \<Longrightarrow> proper (model_validator v r)"
  by (cases r) (simp_all add: proper_def split: sum.splits)

lemma proper_validate_station: "proper (validate_station kw)"
  unfolding validate_station_def by (intro proper_ap proper_field proper_Inr)

lemma proper_validate_crew_member: "proper (validate_crew_member kw)"
  unfolding validate_crew_member_def by (intro proper_ap proper_field proper_Inr)

lemma proper_validate_item: "proper (validate_item x)"
  by (cases x) (simp_all add: proper_validate_crew_member proper_Inr, simp add: proper_def)

lemma proper_contact_fields: "proper (contact_fields kw)"
  unfolding contact_fields_def by (intro proper_ap proper_field proper_Inr)

lemma proper_mission_fields: "proper (mission_fields kw)"
  unfolding mission_fields_def
  by (intro proper_ap proper_field proper_Inr proper_list_field proper_validate_item)

lemma proper_validate_contact: "proper (validate_contact kw)"
  unfolding validate_contact_def by (intro proper_model_validator proper_contact_fields)

lemma proper_validate_mission: "proper (validate_mission kw)"
  unfolding validate_mission_def by (intro proper_model_validator proper_mission_fields)

section \<open>The constraints of the code and of the specification\<close>

lemma str_length_None_iff:
  "str_length (Some lo) (Some hi) s = None \<longleftrightarrow> string_length lo hi s"
  by (auto simp: str_length_def string_length_def)

lemma ge_le_None_iff: "ge_le lo hi x = None \<longleftrightarrow> numeric_range lo hi x"
  by (auto simp: ge_le_def numeric_range_def)

lemma nullable_str_length_None_iff:
  "nullable (str_length None (Some hi)) v = None \<longleftrightarrow> none_or (string_length 0 hi) v"
  by (cases v) (auto simp: nullable_def none_or_def str_length_def string_length_def)

lemma unconstrained_None_iff: "unconstrained x = None \<longleftrightarrow> any_value x"
  by (simp add: unconstrained_def any_value_def)

lemmas constraint_iffs =
  str_length_None_iff ge_le_None_iff nullable_str_length_None_iff unconstrained_None_iff

section \<open>Instances after validation\<close>

lemma field_required_Inr: "field chk terr None f inp = Inr v \<Longrightarrow> chk v = None"
  by (simp add: field_Inr_iff)

lemma validated_station_valid:
  assumes "validate_station kw = Inr st"
  shows "station_valid st"
  using assms [unfolded validate_station_Inr_iff field_Inr_iff]
  by (auto simp: station_valid_def constraint_iffs none_or_def)

lemma validate_business_rules_self: "validate_business_rules c = Inr c' \<Longrightarrow> c' = c"
  by (auto simp: validate_business_rules_def split: if_splits)

lemma validate_contact_Inr_iff:
  "validate_contact kw = Inr c \<longleftrightarrow> contact_fields kw = Inr c \<and> validate_business_rules c = Inr c"
proof (cases "contact_fields kw")
  case (Inl e)
  then show ?thesis by (simp add: validate_contact_def)
next
  case fields: (Inr a)
  show ?thesis
  proof (cases "validate_business_rules a")
    case (Inl t)
    with fields show ?thesis by (auto simp: validate_contact_def)
  next
    case (Inr b)
    then have "b = a" by (rule validate_business_rules_self)
    with Inr fields show ?thesis by (auto simp: validate_contact_def)
  qed
qed

lemma validated_contact_valid:
  assumes "validate_contact kw = Inr c"
  shows "contact_valid c" and "violated contact_rules c = []"
proof -
  from assms have f: "contact_fields kw = Inr c" and v: "validate_business_rules c = Inr c"
    by (simp_all add: validate_contact_Inr_iff)
  show "contact_valid c"
    using f [unfolded contact_fields_Inr_iff field_Inr_iff]
    by (auto simp: contact_valid_def constraint_iffs none_or_def)
  show "violated contact_rules c = []"
    using v unfolding validate_business_rules_first by (cases "violated contact_rules c") simp_all
qed

lemma validated_mission_valid:
  assumes "validate_mission kw = Inr m"
  shows "mission_valid m" and "violated mission_rules m = []"
proof -
  from assms have f: "mission_fields kw = Inr m" and v: "validate_mission_id m = Inr m"
    by (simp_all add: validate_mission_Inr_iff)
  note fs = f [unfolded mission_fields_Inr_iff]
  from fs obtain xs where "1 \<le> length xs" "length xs \<le> 12"
    and "list_all2 (\<lambda>x y. validate_item x = Inr y) xs (crew m)"
    by (auto simp: list_field_Inr_iff)
  then have "collection_size 1 12 (crew m)"
    by (auto simp: collection_size_def dest: list_all2_lengthD)
  moreover from fs have "str_length (Some 5) (Some 15) (mission_id m) = None"
    "str_length (Some 3) (Some 100) (mission_name m) = None"
    "str_length (Some 3) (Some 50) (destination m) = None"
    "ge_le 1 3650 (duration_days m) = None" "ge_le 1 10000 (budget_millions m) = None"
    by (auto dest: field_required_Inr)
  ultimately show "mission_valid m"
    by (simp add: mission_valid_def constraint_iffs)
  show "violated mission_rules m = []"
    using v unfolding validate_mission_id_first by (cases "violated mission_rules m") simp_all
qed

lemma setattr_default: "setattr default_config valid assign self = Inr (assign self)"
  by (simp add: setattr_def default_config_def)

text \<open>
  C1, as amended. A station, a contact report or a mission that validation returns
  satisfies the constraints on its own fields (for a mission these include the size of the
  crew, not the fields of its members) and violates none of its business rules, and the
  model validators return the instance they are given unchanged. But none of the three
  classes is frozen: any attribute assignment on such an instance succeeds and stores the
  value without validating it, so that \<^verbatim>\<open>crew_size = 25\<close>, \<^verbatim>\<open>witness_count = 0\<close> and
  \<^verbatim>\<open>duration_days = 0\<close> leave an instance that breaks its constraints.
\<close>

theorem instances_not_frozen:
  "(validate_station kw1 = Inr st \<longrightarrow>
      station_valid st
      \<and> setattr SpaceStation_config station_valid assign1 st = Inr (assign1 st)
      \<and> \<not> station_valid (assign_crew_size 25 st))
   \<and> (validate_contact kw2 = Inr c \<longrightarrow>
      contact_valid c \<and> violated contact_rules c = []
      \<and> setattr AlienContact_config contact_valid assign2 c = Inr (assign2 c)
      \<and> \<not> contact_valid (assign_witness_count 0 c))
   \<and> (validate_mission kw3 = Inr m \<longrightarrow>
      mission_valid m \<and> violated mission_rules m = []
      \<and> setattr SpaceMission_config mission_valid assign3 m = Inr (assign3 m)
      \<and> \<not> mission_valid (assign_duration_days 0 m))
   \<and> (validate_business_rules c' = Inr c'' \<longrightarrow> c'' = c')
   \<and> (validate_mission_id m' = Inr m'' \<longrightarrow> m'' = m')"
proof (intro conjI impI)
  show "station_valid st" if "validate_station kw1 = Inr st"
    using that by (rule validated_station_valid)
  show "contact_valid c" "violated contact_rules c = []" if "validate_contact kw2 = Inr c"
    using that by (rule validated_contact_valid)+
  show "mission_valid m" "violated mission_rules m = []" if "validate_mission kw3 = Inr m"
    using that by (rule validated_mission_valid)+
  show "setattr SpaceStation_config station_valid assign1 st = Inr (assign1 st)"
    by (simp add: SpaceStation_config_def setattr_default)
  show "setattr AlienContact_config contact_valid assign2 c = Inr (assign2 c)"
    by (simp add: AlienContact_config_def setattr_default)
  show "setattr SpaceMission_config mission_valid assign3 m = Inr (assign3 m)"
    by (simp add: SpaceMission_config_def setattr_default)
  show "\<not> station_valid (assign_crew_size 25 st)"
    by (simp add: station_valid_def assign_crew_size_def numeric_range_def)
  show "\<not> contact_valid (assign_witness_count 0 c)"
    by (simp add: contact_valid_def assign_witness_count_def numeric_range_def)
  show "\<not> mission_valid (assign_duration_days 0 m)"
    by (simp add: mission_valid_def assign_duration_days_def numeric_range_def)
  show "c'' = c'" if "validate_business_rules c' = Inr c''"
    using that by (rule validate_business_rules_self)
  show "m'' = m'" if "validate_mission_id m' = Inr m''"
    using that by (simp add: validate_mission_id_Inr_iff)
qed

theorem instances_not_frozen_witness:
  "validate_station station_ok = Inr iss \<and> station_valid iss
   \<and> setattr SpaceStation_config station_valid (assign_crew_size 25) iss
       = Inr (iss\<lparr>crew_size := 25\<rparr>)
   \<and> validate_contact valid_contact
       = Inr (AlienContact_of ''AC_2024_001'' (Datetime 2024 6 1 14 30 0 0)
               ''Area 51, Nevada'' radio 8.5 45 5 (Some ''Greetings from Zeta Reticuli'') False)
   \<and> setattr AlienContact_config contact_valid (assign_witness_count 0)
        (AlienContact_of ''AC_2024_001'' (Datetime 2024 6 1 14 30 0 0)
               ''Area 51, Nevada'' radio 8.5 45 5 (Some ''Greetings from Zeta Reticuli'') False)
       = Inr (AlienContact_of ''AC_2024_001'' (Datetime 2024 6 1 14 30 0 0)
               ''Area 51, Nevada'' radio 8.5 45 0 (Some ''Greetings from Zeta Reticuli'') False)
   \<and> validate_mission mission_ok = Inr mars_mission \<and> mission_valid mars_mission
   \<and> setattr SpaceMission_config mission_valid (assign_duration_days 0) mars_mission
       = Inr (mars_mission\<lparr>duration_days := 0\<rparr>)
   \<and> validate_business_rules (telepathic_contact\<lparr>witness_count := 3\<rparr>)
       = Inr (telepathic_contact\<lparr>witness_count := 3\<rparr>)
   \<and> validate_mission_id mars_mission = Inr mars_mission"
proof -
  let ?c = "AlienContact_of ''AC_2024_001'' (Datetime 2024 6 1 14 30 0 0)
      ''Area 51, Nevada'' radio 8.5 45 5 (Some ''Greetings from Zeta Reticuli'') False"
  have c: "validate_contact valid_contact = Inr ?c"
    by (simp add: model_defs input_defs constraint_defs)
  have b: "validate_business_rules (telepathic_contact\<lparr>witness_count := 3\<rparr>)
      = Inr (telepathic_contact\<lparr>witness_count := 3\<rparr>)"
    by (simp add: model_defs input_defs)
  have m: "validate_mission_id mars_mission = Inr mars_mission"
    using mission_ok_valid by (simp add: validate_mission_Inr_iff)
  show ?thesis
    using instances_not_frozen
        [of station_ok iss "assign_crew_size 25" valid_contact ?c "assign_witness_count 0"
          mission_ok mars_mission "assign_duration_days 0"
          "telepathic_contact\<lparr>witness_count := 3\<rparr>" "telepathic_contact\<lparr>witness_count := 3\<rparr>"
          mars_mission mars_mission]
      validate_station_ok c b m mission_ok_valid
    by (simp add: assign_crew_size_def assign_witness_count_def assign_duration_days_def
        AlienContact_of_def)
qed

text \<open>
  C1 as the specification states it fails on the station of the demonstration: once
  validated, \<^verbatim>\<open>station.crew_size = 25\<close> changes the field, to a value that the constraint
  on it excludes.
\<close>

theorem immutability_counterexample:
  "validate_station station_ok = Inr iss
   \<and> setattr SpaceStation_config station_valid (assign_crew_size 25) iss
       = Inr (iss\<lparr>crew_size := 25\<rparr>)
   \<and> crew_size (iss\<lparr>crew_size := 25\<rparr>) \<noteq> crew_size iss
   \<and> \<not> station_valid (iss\<lparr>crew_size := 25\<rparr>)"
  by (simp add: validate_station_ok setattr_default SpaceStation_config_def
      assign_crew_size_def iss_def station_valid_def numeric_range_def)

text \<open>
  A crew member that was assigned the age 17 is taken into a mission as it is: the
  mission of the demonstration validates with it.
\<close>

lemma mission_with_minor_valid:
  "validate_mission mission_with_minor = Inr (mars_mission\<lparr>crew := crew_with_minor\<rparr>)"
  by (simp add: model_defs input_defs constraint_defs)

section \<open>Field errors are collected\<close>

lemma errors_field:
  assumes "\<And>v. chk v = None \<longleftrightarrow> sat v"
  shows "map loc (errors (field chk terr dflt f inp)) = path_if f (offending sat (dflt \<noteq> None) inp)"
proof (cases inp)
  case (Given v)
  then show ?thesis
    using assms [of v] by (cases "chk v") (simp_all add: path_if_def)
qed (auto simp: path_if_def split: option.splits)

lemmas errors_fields =
  errors_field [of "str_length (Some lo) (Some hi)" "string_length lo hi", OF str_length_None_iff]
  errors_field [of "ge_le lo hi" "numeric_range lo hi", OF ge_le_None_iff]
  errors_field [of "nullable (str_length None (Some hi))" "none_or (string_length 0 hi)",
    OF nullable_str_length_None_iff]
  errors_field [of unconstrained any_value, OF unconstrained_None_iff]
  for lo hi

lemma station_errors: "map loc (errors (validate_station kw)) = station_offending kw"
  by (simp add: validate_station_def station_offending_def errors_ap errors_fields)

lemma contact_errors: "map loc (errors (contact_fields kw)) = contact_offending kw"
  by (simp add: contact_fields_def contact_offending_def errors_ap errors_fields)

lemma crew_member_errors:
  "map loc (errors (validate_crew_member kw)) = crew_member_offending kw"
  by (simp add: validate_crew_member_def crew_member_offending_def errors_ap errors_fields)

lemma item_errors: "map loc (errors (validate_item x)) = item_offending False x"
  by (cases x) (simp_all add: crew_member_errors)

lemma errors_under: "map loc (errors (under k r)) = map (\<lambda>p. k # p) (map loc (errors r))"
  by (cases r) (simp_all add: under_def o_def)

lemma items_errors:
  "map loc (errors (validate_items validate_item i xs)) = items_offending False i xs"
  by (induction xs arbitrary: i) (simp_all add: errors_ap errors_under item_errors)

lemma crew_errors:
  assumes "\<And>xs. inp = Given xs \<Longrightarrow> length xs \<le> 12"
  shows "map loc (errors (list_field 1 12 validate_item ''crew'' inp))
     = crew_offending False inp"
proof (cases inp)
  case (Given xs)
  then have len: "length xs \<le> 12" by (rule assms)
  have p: "proper (validate_items validate_item 0 xs)"
    by (intro proper_validate_items proper_validate_item)
  show ?thesis
  proof (cases "validate_items validate_item 0 xs")
    case (Inl e)
    then have "xs \<noteq> []" by auto
    with len have "collection_size 1 12 xs"
      by (cases xs) (simp_all add: collection_size_def)
    moreover have "map loc (errors (under (Key ''crew'') (validate_items validate_item 0 xs)))
        = map (\<lambda>p. Key ''crew'' # p) (items_offending False 0 xs)"
      by (simp add: errors_under items_errors)
    ultimately show ?thesis
      using Given Inl len by (simp add: path_if_def under_def)
  next
    case (Inr ys)
    then have "length ys = length xs"
      by (simp add: validate_items_Inr_iff list_all2_lengthD)
    moreover have "items_offending False 0 xs = []"
      using items_errors [of 0 xs] Inr by simp
    ultimately show ?thesis
      using Given Inr len
      by (auto simp: path_if_def under_def collection_size_def Suc_le_eq)
  qed
qed (simp_all add: path_if_def)

lemma mission_errors:
  assumes "\<And>xs. kw_crew kw = Given xs \<Longrightarrow> length xs \<le> 12"
  shows "map loc (errors (mission_fields kw)) = mission_offending False kw"
  using crew_errors [of "kw_crew kw", OF assms]
  by (simp add: mission_fields_def mission_offending_def mission_paths_def errors_ap
      errors_fields)

lemma mission_overlong_errors:
  assumes "kw_crew kw = Given xs" and "12 < length xs"
  shows "map loc (errors (mission_fields kw)) = mission_paths [[Key ''crew'']] kw"
  using assms by (simp add: mission_fields_def mission_paths_def errors_ap errors_fields)

text \<open>
  Where every element of the crew that is an instance satisfies the constraints of a crew
  member, taking instances as they are makes no difference to the offending paths.
\<close>

lemma items_offending_valid_instances:
  assumes "\<And>member. Instance member \<in> set xs \<Longrightarrow> instance_offending member = []"
  shows "items_offending True i xs = items_offending False i xs"
  using assms
proof (induction xs arbitrary: i)
  case Nil
  then show ?case by simp
next
  case (Cons x xs)
  then show ?case by (cases x) simp_all
qed

lemma filter_field_errors:
  "f \<noteq> g \<Longrightarrow> filter (located_under g) (errors (field chk terr dflt f inp)) = []"
  by (cases inp) (auto simp: located_under_def split: option.splits)

lemma crew_overlong:
  assumes "kw_crew kw = Given xs" and "12 < length xs"
  shows "filter (located_under ''crew'') (errors (mission_fields kw))
     = [Violation [Key ''crew''] TooLong]"
  using assms by (simp add: mission_fields_def errors_ap filter_field_errors located_under_def)

lemma reported:
  assumes "proper r" and "map loc (errors r) = ps" and "2 \<le> length ps"
  shows "\<exists>es. r = Inl es \<and> map loc es = ps"
proof -
  from assms(2,3) have "errors r \<noteq> []" by auto
  with assms(1) have "r = Inl (errors r)" by (rule proper_errors)
  with assms(2) show ?thesis by blast
qed

lemma items_offending_replicate:
  "item_offending b x = [] \<Longrightarrow> items_offending b i (replicate n x) = []"
  by (induction n arbitrary: i) simp_all

lemma two_out_of_range:
  assumes "validate_station kw = Inr st"
  shows "validate_station (kw\<lparr>kw_crew_size := Given 25, kw_power_level := Given 150\<rparr>)
     = Inl [Violation [Key ''crew_size''] LessThanEqual,
            Violation [Key ''power_level''] LessThanEqual]"
  using assms [unfolded validate_station_Inr_iff]
  by (simp add: validate_station_def ge_le_def)

text \<open>
  C3, as amended. An input with two or more offending fields is rejected with exactly one
  violation for each offending field path, in declaration order, with two exceptions, both
  about the crew of a mission. An element of the crew that is already a \<^verbatim>\<open>CrewMember\<close>
  instance is taken as it is, so that no field of it offends. A crew of more than 12
  elements is one offending path, \<^verbatim>\<open>crew\<close>, reported by the size violation, and its
  elements are not examined; the violations of the other fields of the mission are
  reported as usual. In particular a valid station input in which the crew size is
  replaced by 25 and the power level by 150 gives exactly two violations, one at
  \<^verbatim>\<open>crew_size\<close> and one at \<^verbatim>\<open>power_level\<close>.
\<close>

theorem field_errors_exhaustive:
  "(2 \<le> length (station_offending s) \<longrightarrow>
      (\<exists>es. validate_station s = Inl es \<and> map loc es = station_offending s))
   \<and> (2 \<le> length (contact_offending c) \<longrightarrow>
      (\<exists>es. validate_contact c = Inl es \<and> map loc es = contact_offending c))
   \<and> (2 \<le> length (crew_member_offending k) \<longrightarrow>
      (\<exists>es. validate_crew_member k = Inl es \<and> map loc es = crew_member_offending k))
   \<and> (2 \<le> length (mission_offending False m)
        \<and> (\<forall>xs. kw_crew m = Given xs \<longrightarrow> length xs \<le> 12) \<longrightarrow>
      (\<exists>es. validate_mission m = Inl es \<and> map loc es = mission_offending False m))
   \<and> (kw_crew m' = Given xs \<and> 12 < length xs \<longrightarrow>
      (\<exists>es. validate_mission m' = Inl es
         \<and> map loc es = mission_paths [[Key ''crew'']] m'
         \<and> filter (located_under ''crew'') es = [Violation [Key ''crew''] TooLong]))
   \<and> (validate_station s' = Inr st \<longrightarrow>
      validate_station (s'\<lparr>kw_crew_size := Given 25, kw_power_level := Given 150\<rparr>)
        = Inl [Violation [Key ''crew_size''] LessThanEqual,
               Violation [Key ''power_level''] LessThanEqual])"
proof (intro conjI impI; (elim conjE)?)
  show "\<exists>es. validate_station s = Inl es \<and> map loc es = station_offending s"
    if "2 \<le> length (station_offending s)"
    using proper_validate_station station_errors that by (rule reported)
  show "\<exists>es. validate_crew_member k = Inl es \<and> map loc es = crew_member_offending k"
    if "2 \<le> length (crew_member_offending k)"
    using proper_validate_crew_member crew_member_errors that by (rule reported)
  show "\<exists>es. validate_contact c = Inl es \<and> map loc es = contact_offending c"
    if n: "2 \<le> length (contact_offending c)"
  proof -
    obtain es where es: "contact_fields c = Inl es" "map loc es = contact_offending c"
      using reported [OF proper_contact_fields contact_errors n] by blast
    then show ?thesis by (simp add: validate_contact_def)
  qed
  show "\<exists>es. validate_mission m = Inl es \<and> map loc es = mission_offending False m"
    if n: "2 \<le> length (mission_offending False m)"
      and len: "\<forall>xs. kw_crew m = Given xs \<longrightarrow> length xs \<le> 12"
  proof -
    have "map loc (errors (mission_fields m)) = mission_offending False m"
      using len by (intro mission_errors) simp
    from reported [OF proper_mission_fields this n]
    obtain es where "mission_fields m = Inl es" "map loc es = mission_offending False m"
      by blast
    then show ?thesis by (simp add: validate_mission_def)
  qed
  show "\<exists>es. validate_mission m' = Inl es
      \<and> map loc es = mission_paths [[Key ''crew'']] m'
      \<and> filter (located_under ''crew'') es = [Violation [Key ''crew''] TooLong]"
    if c: "kw_crew m' = Given xs" and l: "12 < length xs"
  proof -
    let ?es = "errors (mission_fields m')"
    have e: "filter (located_under ''crew'') ?es = [Violation [Key ''crew''] TooLong]"
      using c l by (rule crew_overlong)
    have ps: "map loc ?es = mission_paths [[Key ''crew'']] m'"
      using c l by (rule mission_overlong_errors)
    from e have "?es \<noteq> []" by auto
    with proper_mission_fields have r: "mission_fields m' = Inl ?es"
      by (rule proper_errors)
    have "validate_mission m' = Inl ?es"
      unfolding validate_mission_def by (subst r) simp
    with e ps show ?thesis by blast
  qed
  show "validate_station (s'\<lparr>kw_crew_size := Given 25, kw_power_level := Given 150\<rparr>)
      = Inl [Violation [Key ''crew_size''] LessThanEqual,
             Violation [Key ''power_level''] LessThanEqual]"
    if "validate_station s' = Inr st"
    using that by (rule two_out_of_range)
qed

theorem field_errors_exhaustive_witness:
  "station_offending (station_ok\<lparr>kw_crew_size := Given 25, kw_power_level := Given 150\<rparr>)
     = [[Key ''crew_size''], [Key ''power_level'']]
   \<and> validate_station (station_ok\<lparr>kw_crew_size := Given 25, kw_power_level := Given 150\<rparr>)
     = Inl [Violation [Key ''crew_size''] LessThanEqual,
            Violation [Key ''power_level''] LessThanEqual]
   \<and> contact_offending
        (invalid_contact\<lparr>kw_contact_id := Given ''AC'', kw_witness_count := Given 0\<rparr>)
     = [[Key ''contact_id''], [Key ''witness_count'']]
   \<and> validate_contact
        (invalid_contact\<lparr>kw_contact_id := Given ''AC'', kw_witness_count := Given 0\<rparr>)
     = Inl [Violation [Key ''contact_id''] StringTooShort,
            Violation [Key ''witness_count''] GreaterThanEqual]
   \<and> crew_member_offending (sarah\<lparr>kw_age := Given 17, kw_rank := Uncoercible\<rparr>)
     = [[Key ''rank''], [Key ''age'']]
   \<and> validate_crew_member (sarah\<lparr>kw_age := Given 17, kw_rank := Uncoercible\<rparr>)
     = Inl [Violation [Key ''rank''] EnumError, Violation [Key ''age''] GreaterThanEqual]
   \<and> mission_offending False
        (mission_ok\<lparr>kw_crew :=
           Given [Instance (assign_age 17 (crew_with_leader ! 0)),
                  Fields (john\<lparr>kw_age := Given 17, kw_member_id := Absent\<rparr>), NotAModel]\<rparr>)
     = [[Key ''crew'', Index 1, Key ''member_id''], [Key ''crew'', Index 1, Key ''age''],
        [Key ''crew'', Index 2]]
   \<and> validate_mission
        (mission_ok\<lparr>kw_crew :=
           Given [Instance (assign_age 17 (crew_with_leader ! 0)),
                  Fields (john\<lparr>kw_age := Given 17, kw_member_id := Absent\<rparr>), NotAModel]\<rparr>)
     = Inl [Violation [Key ''crew'', Index 1, Key ''member_id''] Missing,
            Violation [Key ''crew'', Index 1, Key ''age''] GreaterThanEqual,
            Violation [Key ''crew'', Index 2] ModelType]
   \<and> mission_paths [[Key ''crew'']] (mission_overlong\<lparr>kw_budget_millions := Given 0\<rparr>)
     = [[Key ''crew''], [Key ''budget_millions'']]
   \<and> validate_mission (mission_overlong\<lparr>kw_budget_millions := Given 0\<rparr>)
     = Inl [Violation [Key ''crew''] TooLong,
            Violation [Key ''budget_millions''] GreaterThanEqual]"
proof -
  let ?s = "station_ok\<lparr>kw_crew_size := Given 25, kw_power_level := Given 150\<rparr>"
  let ?c = "invalid_contact\<lparr>kw_contact_id := Given ''AC'', kw_witness_count := Given 0\<rparr>"
  let ?k = "sarah\<lparr>kw_age := Given 17, kw_rank := Uncoercible\<rparr>"
  let ?m = "mission_ok\<lparr>kw_crew :=
      Given [Instance (assign_age 17 (crew_with_leader ! 0)),
             Fields (john\<lparr>kw_age := Given 17, kw_member_id := Absent\<rparr>), NotAModel]\<rparr>"
  let ?o = "mission_overlong\<lparr>kw_budget_millions := Given 0\<rparr>"
  let ?xs = "Fields (john\<lparr>kw_age := Given 17\<rparr>) # Fields sarah # replicate 11 (Fields john)"
  note spec_defs = path_if_def string_length_def numeric_range_def any_value_def
    none_or_def collection_size_def
  have s: "station_offending ?s = [[Key ''crew_size''], [Key ''power_level'']]"
    by (simp add: station_offending_def station_ok_def spec_defs)
  have c: "contact_offending ?c = [[Key ''contact_id''], [Key ''witness_count'']]"
    by (simp add: contact_offending_def invalid_contact_def spec_defs)
  have k: "crew_member_offending ?k = [[Key ''rank''], [Key ''age'']]"
    by (simp add: crew_member_offending_def sarah_def spec_defs)
  have m: "mission_offending False ?m
      = [[Key ''crew'', Index 1, Key ''member_id''], [Key ''crew'', Index 1, Key ''age''],
         [Key ''crew'', Index 2]]"
    by (simp add: mission_offending_def mission_paths_def crew_member_offending_def
        mission_ok_def john_def spec_defs)
  have p: "mission_paths [[Key ''crew'']] ?o = [[Key ''crew''], [Key ''budget_millions'']]"
    by (simp add: mission_paths_def mission_overlong_def mission_ok_def spec_defs)
  have vc: "validate_contact ?c
      = Inl [Violation [Key ''contact_id''] StringTooShort,
             Violation [Key ''witness_count''] GreaterThanEqual]"
    by (simp add: model_defs input_defs constraint_defs)
  have vk: "validate_crew_member ?k
      = Inl [Violation [Key ''rank''] EnumError, Violation [Key ''age''] GreaterThanEqual]"
    by (simp add: model_defs input_defs constraint_defs)
  have vm: "validate_mission ?m
      = Inl [Violation [Key ''crew'', Index 1, Key ''member_id''] Missing,
             Violation [Key ''crew'', Index 1, Key ''age''] GreaterThanEqual,
             Violation [Key ''crew'', Index 2] ModelType]"
    by (simp add: model_defs input_defs constraint_defs)
  have vo: "validate_mission ?o
      = Inl [Violation [Key ''crew''] TooLong,
             Violation [Key ''budget_millions''] GreaterThanEqual]"
    by (simp add: model_defs input_defs constraint_defs)
  have o: "kw_crew ?o = Given ?xs" "12 < length ?xs"
    by (simp_all add: mission_overlong_def mission_ok_def)
  have l: "kw_crew ?m = Given xs \<longrightarrow> length xs \<le> 12" for xs
    by (auto simp: mission_ok_def)
  show ?thesis
    using field_errors_exhaustive [of ?s ?c ?k ?m ?o ?xs station_ok iss]
      s c k m p vc vk vm vo o l validate_station_ok
    by simp
qed

text \<open>
  C3 as the specification states it fails for a mission with thirteen crew members, the
  first of them aged 17: the size of the crew and the age both offend, and the report has
  the violation of the size alone.
\<close>

theorem field_errors_counterexample:
  "mission_offending True mission_overlong
     = [[Key ''crew''], [Key ''crew'', Index 0, Key ''age'']]
   \<and> validate_mission mission_overlong = Inl [Violation [Key ''crew''] TooLong]"
proof -
  have "item_offending True (Fields john) = []" "item_offending True (Fields sarah) = []"
    by (simp_all add: crew_member_offending_def path_if_def john_def sarah_def
        string_length_def numeric_range_def any_value_def)
  then have "mission_offending True mission_overlong
      = [[Key ''crew''], [Key ''crew'', Index 0, Key ''age'']]"
    by (simp add: mission_offending_def mission_paths_def mission_overlong_def mission_ok_def
        items_offending_replicate crew_member_offending_def path_if_def john_def
        string_length_def numeric_range_def any_value_def collection_size_def)
  moreover have "validate_mission mission_overlong = Inl [Violation [Key ''crew''] TooLong]"
    by (simp add: model_defs input_defs constraint_defs)
  ultimately show ?thesis by simp
qed

end
